theory Spec2Isabelle
  imports Main "HOL-Library.Multiset" "HOL-Library.Char_ord" "HOL-Library.List_Lexorder"
begin

section \<open>Message store (package storage)\<close>

text \<open>
  An instant of Go's \<open>time.Time\<close>, as a count of clock units.
\<close>

type_synonym time = int

text \<open>The struct \<open>Message\<close> of package storage.\<close>

record Message =
  ID :: int
  ChatID :: string
  MessageID :: string
  SenderID :: string
  SenderType :: string
  Content :: string
  MessageType :: string
  CreatedAt :: time

text \<open>
  A row of table \<open>messages\<close> as \<open>initTables\<close> creates it. The column \<open>created_at\<close> holds the
  text the driver stored: \<open>GetMessagesByChatID\<close> scans it into a Go string and parses it.
  Columns are compared as the engine compares text, byte by byte.
\<close>

record row =
  col_id :: int
  col_chat_id :: string
  col_message_id :: string
  col_sender_id :: string
  col_sender_type :: string
  col_content :: string
  col_message_type :: string
  col_created_at :: string

text \<open>
  The database behind \<open>Storage.db\<close>: the rows of the table in rowid order, and the
  AUTOINCREMENT counter (the largest id ever handed out).
\<close>

record Storage =
  messages :: "row list"
  seq :: int

text \<open>
  Errors are values. \<open>External\<close> is an error handed back by a collaborator (the SQL driver,
  the platform SDK); \<open>Wrapf\<close> is \<open>fmt.Errorf("...: %w", err)\<close> at one of the source's sites.
\<close>

datatype wrap_site =
    SaveFailed | QueryFailed | ScanFailed | IterFailed
  | KeepQueryFailed | ScanIDFailed | IterIDFailed | DeleteFailed
  | SendFailed | ListFailed

datatype error =
    External string
  | Wrapf wrap_site error
  | ApiSendError int string string
  | ApiListError int string

text \<open>Where a SELECT can fail: running the query, scanning a row, iterating to the end.\<close>

datatype read_fault = QueryFault error | ScanFault error | RowsFault error

text \<open>
  \<open>ORDER BY created_at DESC\<close> is the engine's: the queries name no second sort key, so the
  order of rows with equal \<open>created_at\<close> is whatever the engine produces. The engine's
  ordering is a parameter \<open>ob\<close> of the queries; it is an admissible one when it permutes the
  rows it is given and returns them newest first.
\<close>

definition order_by_created_at_desc_ok :: "(row list \<Rightarrow> row list) \<Rightarrow> bool" where
  "order_by_created_at_desc_ok ob \<longleftrightarrow>
     (\<forall>rs. mset (ob rs) = mset rs \<and>
           sorted_wrt (\<lambda>a b. col_created_at b \<le> col_created_at a) (ob rs))"

text \<open>\<open>LIMIT n\<close>: the first \<open>n\<close> rows; a negative \<open>n\<close> is no limit.\<close>

definition sql_limit :: "int \<Rightarrow> 'a list \<Rightarrow> 'a list" where
  "sql_limit n xs = (if n < 0 then xs else take (nat n) xs)"

text \<open>\<open>SELECT ... WHERE chat_id = ? ORDER BY created_at DESC LIMIT ?\<close>, used by both readers.\<close>

definition select_recent :: "(row list \<Rightarrow> row list) \<Rightarrow> Storage \<Rightarrow> string \<Rightarrow> int \<Rightarrow> row list" where
  "select_recent ob s chatID n =
     sql_limit n (ob (filter (\<lambda>r. col_chat_id r = chatID) (messages s)))"

text \<open>
  The statement of \<open>SaveMessage\<close>: INSERT, and on a conflict on the UNIQUE column
  \<open>message_id\<close> an UPDATE of \<open>content\<close> and \<open>created_at\<close> of the row already there.
  \<open>enc\<close> is the driver's encoding of a \<open>time.Time\<close> argument. The counter advances with
  every row inserted; nothing below depends on what the engine does to it on a conflict.
\<close>

definition insert_on_conflict_update :: "(time \<Rightarrow> string) \<Rightarrow> Storage \<Rightarrow> Message \<Rightarrow> Storage" where
  "insert_on_conflict_update enc s msg =
     (if MessageID msg \<in> set (map col_message_id (messages s))
      then s\<lparr>messages :=
                map (\<lambda>r. if col_message_id r = MessageID msg
                         then r\<lparr>col_content := Content msg, col_created_at := enc (CreatedAt msg)\<rparr>
                         else r) (messages s)\<rparr>
      else s\<lparr>messages := messages s @
                [\<lparr>col_id = seq s + 1, col_chat_id = ChatID msg, col_message_id = MessageID msg,
                  col_sender_id = SenderID msg, col_sender_type = SenderType msg,
                  col_content = Content msg, col_message_type = MessageType msg,
                  col_created_at = enc (CreatedAt msg)\<rparr>],
             seq := seq s + 1\<rparr>)"

text \<open>
  \<open>SaveMessage\<close>. The SELECT that looks for an existing row first only chooses a log line
  (its error is logged and dropped), so it leaves no trace here. \<open>fault\<close> is the error of
  \<open>ExecContext\<close>, if any; a failed statement changes nothing.
\<close>

definition SaveMessage :: "(time \<Rightarrow> string) \<Rightarrow> error option \<Rightarrow> Storage \<Rightarrow> Message \<Rightarrow> error + Storage" where
  "SaveMessage enc fault s msg =
     (case fault of
        Some e \<Rightarrow> Inl (Wrapf SaveFailed e)
      | None \<Rightarrow> Inr (insert_on_conflict_update enc s msg))"

text \<open>
  The row loop of \<open>GetMessagesByChatID\<close>: each row becomes a \<open>Message\<close>; \<open>parse\<close> is
  \<open>time.Parse\<close> with the layout \<open>2006-01-02 15:04:05\<close>, and where it fails the message gets
  \<open>time.Now()\<close>. \<open>clk k\<close> is the \<open>k\<close>-th reading of the clock during the call.
\<close>

definition scan_row :: "row \<Rightarrow> time \<Rightarrow> Message" where
  "scan_row r t =
     \<lparr>ID = col_id r, ChatID = col_chat_id r, MessageID = col_message_id r,
      SenderID = col_sender_id r, SenderType = col_sender_type r,
      Content = col_content r, MessageType = col_message_type r, CreatedAt = t\<rparr>"

fun scan_rows :: "(string \<Rightarrow> time option) \<Rightarrow> (nat \<Rightarrow> time) \<Rightarrow> nat \<Rightarrow> row list \<Rightarrow> Message list" where
  "scan_rows parse clk k [] = []"
| "scan_rows parse clk k (r # rs) =
     (case parse (col_created_at r) of
        Some t \<Rightarrow> scan_row r t # scan_rows parse clk k rs
      | None \<Rightarrow> scan_row r (clk k) # scan_rows parse clk (Suc k) rs)"

definition GetMessagesByChatID ::
  "(row list \<Rightarrow> row list) \<Rightarrow> (string \<Rightarrow> time option) \<Rightarrow> (nat \<Rightarrow> time) \<Rightarrow> read_fault option \<Rightarrow>
   Storage \<Rightarrow> string \<Rightarrow> int \<Rightarrow> error + Message list" where
  "GetMessagesByChatID ob parse clk fault s chatID limit =
     (let limit = (if limit \<le> 0 then 50 else limit) in
      case fault of
        Some (QueryFault e) \<Rightarrow> Inl (Wrapf QueryFailed e)
      | Some (ScanFault e) \<Rightarrow> Inl (Wrapf ScanFailed e)
      | Some (RowsFault e) \<Rightarrow> Inl (Wrapf IterFailed e)
      | None \<Rightarrow> Inr (rev (scan_rows parse clk 0 (select_recent ob s chatID limit))))"

definition GetRecentMessagesByChatID ::
  "(row list \<Rightarrow> row list) \<Rightarrow> (string \<Rightarrow> time option) \<Rightarrow> (nat \<Rightarrow> time) \<Rightarrow> read_fault option \<Rightarrow>
   Storage \<Rightarrow> string \<Rightarrow> int \<Rightarrow> error + Message list" where
  "GetRecentMessagesByChatID = GetMessagesByChatID"

text \<open>
  \<open>DeleteOldMessages\<close>: select the ids to keep, then delete the conversation's other rows;
  with no id to keep, delete all its rows (that DELETE's error is returned as it is).
\<close>

definition DeleteOldMessages ::
  "(row list \<Rightarrow> row list) \<Rightarrow> read_fault option \<Rightarrow> error option \<Rightarrow>
   Storage \<Rightarrow> string \<Rightarrow> int \<Rightarrow> error + Storage" where
  "DeleteOldMessages ob sel_fault del_fault s chatID keepCount =
     (case sel_fault of
        Some (QueryFault e) \<Rightarrow> Inl (Wrapf KeepQueryFailed e)
      | Some (ScanFault e) \<Rightarrow> Inl (Wrapf ScanIDFailed e)
      | Some (RowsFault e) \<Rightarrow> Inl (Wrapf IterIDFailed e)
      | None \<Rightarrow>
          (let keepIDs = map col_id (select_recent ob s chatID keepCount) in
           if length keepIDs = 0
           then (case del_fault of
                   Some e \<Rightarrow> Inl e
                 | None \<Rightarrow> Inr (s\<lparr>messages := filter (\<lambda>r. \<not> col_chat_id r = chatID) (messages s)\<rparr>))
           else (case del_fault of
                   Some e \<Rightarrow> Inl (Wrapf DeleteFailed e)
                 | None \<Rightarrow> Inr (s\<lparr>messages :=
                                    filter (\<lambda>r. \<not> (col_chat_id r = chatID \<and> col_id r \<notin> set keepIDs))
                                      (messages s)\<rparr>))))"

text \<open>
  What the schema keeps true of the table: \<open>id\<close> is the primary key, \<open>message_id\<close> is UNIQUE,
  and no id exceeds the AUTOINCREMENT counter. \<open>NewStorage\<close> starts from the empty table.
\<close>

definition store_ok :: "Storage \<Rightarrow> bool" where
  "store_ok s \<longleftrightarrow>
     distinct (map col_id (messages s)) \<and> distinct (map col_message_id (messages s)) \<and>
     list_all (\<lambda>r. col_id r \<le> seq s) (messages s)"

definition NewStorage :: Storage where
  "NewStorage = \<lparr>messages = [], seq = 0\<rparr>"

text \<open>
  A returned \<open>Message\<close> carries the columns of a row, \<open>created_at\<close> apart (that one is parsed).
\<close>

definition carries :: "Message \<Rightarrow> row \<Rightarrow> bool" where
  "carries m r \<longleftrightarrow>
     ID m = col_id r \<and> ChatID m = col_chat_id r \<and> MessageID m = col_message_id r \<and>
     SenderID m = col_sender_id r \<and> SenderType m = col_sender_type r \<and>
     Content m = col_content r \<and> MessageType m = col_message_type r"

text \<open>
  One admissible engine ordering, for running the queries on concrete tables: a stable sort,
  so rows of equal \<open>created_at\<close> stay in the order of the table scan.
\<close>

fun insert_desc :: "row \<Rightarrow> row list \<Rightarrow> row list" where
  "insert_desc r [] = [r]"
| "insert_desc r (x # xs) =
     (if col_created_at x \<le> col_created_at r then r # x # xs else x # insert_desc r xs)"

definition order_by_stable :: "row list \<Rightarrow> row list" where
  "order_by_stable rs = foldr insert_desc rs []"

text \<open>Another one: the same sort over the table scanned backwards.\<close>

definition order_by_stable_rev :: "row list \<Rightarrow> row list" where
  "order_by_stable_rev rs = order_by_stable (rev rs)"

text \<open>
  The retention rule in the spec's words, to compare \<open>DeleteOldMessages\<close> with: the
  conversation's rows newest first, rows of equal \<open>created_at\<close> ordered by sequence number
  (the later insertion is the more recent), the first \<open>keepCount\<close> of them kept.
\<close>

fun insert_newest :: "row \<Rightarrow> row list \<Rightarrow> row list" where
  "insert_newest r [] = [r]"
| "insert_newest r (x # xs) =
     (if col_created_at x < col_created_at r \<or>
         (col_created_at x = col_created_at r \<and> col_id x \<le> col_id r)
      then r # x # xs else x # insert_newest r xs)"

definition trimToRecent_spec :: "Storage \<Rightarrow> string \<Rightarrow> int \<Rightarrow> Storage" where
  "trimToRecent_spec s chatID keepCount =
     (let keep = take (nat keepCount)
                   (foldr insert_newest (filter (\<lambda>r. col_chat_id r = chatID) (messages s)) [])
      in s\<lparr>messages := filter (\<lambda>r. col_chat_id r \<noteq> chatID \<or> r \<in> set keep) (messages s)\<rparr>)"

section \<open>Platform service (package service)\<close>

text \<open>
  A Go function either returns or panics (a nil pointer dereference); the panic is a value.
\<close>

datatype 'a outcome = Returned 'a | Panic

record RecentChat =
  recent_ChatID :: string
  recent_ChatType :: string

text \<open>
  The SDK's requests and responses, as far as the code reads them. Every field the code
  reaches through a pointer is an option. The content of a text message is the list of
  lines handed to the SDK's text builder. The SDK's constants (\<open>ReceiveIdTypeChatId\<close>,
  \<open>ReceiveIdTypeOpenId\<close>, \<open>MsgTypeText\<close>, \<open>UserIdTypeListChatUserId\<close>) are written by value.
\<close>

record create_req =
  receive_id_type :: string
  create_msg_type :: string
  receive_id :: string
  create_content :: "string list"

record reply_req =
  reply_message_id :: string
  reply_msg_type :: string
  reply_content :: "string list"

record list_req =
  user_id_type :: string
  page_size :: int
  page_token :: "string option"

datatype call = CreateCall create_req | ReplyCall reply_req | ListCall list_req

record msg_data =
  data_MessageId :: "string option"

record msg_resp =
  resp_Code :: int
  resp_Msg :: string
  resp_RequestId :: string
  resp_Data :: "msg_data option"

record chat_item =
  item_ChatId :: "string option"

record list_data =
  Items :: "chat_item list"
  HasMore :: "bool option"
  PageToken :: "string option"

record list_resp =
  list_Code :: int
  list_Msg :: string
  list_Data :: "list_data option"

text \<open>
  The remote platform behind \<open>client.Im\<close>. What it answers is not the program's to decide:
  it is a function of the position of the call in the run (the number of calls made
  before) and of the request. An answer is Go's pair of a response pointer and an error.
\<close>

record platform =
  im_message_create :: "nat \<Rightarrow> create_req \<Rightarrow> msg_resp option \<times> error option"
  im_message_reply :: "nat \<Rightarrow> reply_req \<Rightarrow> msg_resp option \<times> error option"
  im_chat_list :: "nat \<Rightarrow> list_req \<Rightarrow> list_resp option \<times> error option"

text \<open>
  \<open>LarkService\<close>: the tracked conversation, and the calls made on the client so far
  (the mutex makes each tracker operation atomic; operations are taken one at a time).
\<close>

record LarkService =
  recentChat :: "RecentChat option"
  calls :: "call list"

definition NewLarkService :: LarkService where
  "NewLarkService = \<lparr>recentChat = None, calls = []\<rparr>"

definition UpdateRecentChat :: "string \<Rightarrow> string \<Rightarrow> LarkService \<Rightarrow> LarkService" where
  "UpdateRecentChat chatID chatType s =
     s\<lparr>recentChat := Some \<lparr>recent_ChatID = chatID, recent_ChatType = chatType\<rparr>\<rparr>"

definition GetRecentChat :: "LarkService \<Rightarrow> RecentChat option" where
  "GetRecentChat s = recentChat s"

text \<open>The SDK's \<open>Success()\<close>: response code 0.\<close>

definition Success :: "msg_resp \<Rightarrow> bool" where
  "Success r \<longleftrightarrow> resp_Code r = 0"

definition SendTextMessage ::
  "platform \<Rightarrow> LarkService \<Rightarrow> string \<Rightarrow> string \<Rightarrow> string \<Rightarrow> error option outcome \<times> LarkService" where
  "SendTextMessage P s receiveID receiveIDType content =
     (let receiveIDTypeStr =
            (if receiveIDType \<in> {''open_id'', ''user_id'', ''union_id'', ''email'', ''chat_id''}
             then receiveIDType else ''open_id'');
          req = \<lparr>receive_id_type = receiveIDTypeStr, create_msg_type = ''text'',
                 receive_id = receiveID, create_content = [content]\<rparr>;
          s' = s\<lparr>calls := calls s @ [CreateCall req]\<rparr>
      in case im_message_create P (length (calls s)) req of
           (resp, Some e) \<Rightarrow> (Returned (Some (Wrapf SendFailed e)), s')
         | (None, None) \<Rightarrow> (Panic, s')
         | (Some r, None) \<Rightarrow>
             if \<not> Success r
             then (Returned (Some (ApiSendError (resp_Code r) (resp_Msg r) (resp_RequestId r))), s')
             else (case resp_Data r of
                     None \<Rightarrow> (Panic, s')
                   | Some d \<Rightarrow>
                       (case data_MessageId d of
                          None \<Rightarrow> (Panic, s')
                        | Some mid \<Rightarrow> (Returned None, s'))))"

text \<open>
  The paging loop of \<open>GetChatList\<close>. It ends only when a page fails or reports no further
  page, so it is a partial function: not returning is the value \<open>None\<close>.
\<close>

definition list_request :: "string \<Rightarrow> list_req" where
  "list_request pageToken =
     \<lparr>user_id_type = ''user_id'', page_size = 50,
      page_token = (if pageToken \<noteq> [] then Some pageToken else None)\<rparr>"

definition item_ids :: "chat_item list \<Rightarrow> string list" where
  "item_ids items = List.map_filter item_ChatId items"

partial_function (option) GetChatList_loop ::
  "platform \<Rightarrow> LarkService \<Rightarrow> string list \<Rightarrow> string \<Rightarrow>
   ((error + string list) outcome \<times> LarkService) option" where
  "GetChatList_loop P s chatIDs pageToken =
     (case im_chat_list P (length (calls s)) (list_request pageToken) of
        (resp, Some e) \<Rightarrow>
          Some (Returned (Inl (Wrapf ListFailed e)),
                s\<lparr>calls := calls s @ [ListCall (list_request pageToken)]\<rparr>)
      | (None, None) \<Rightarrow>
          Some (Panic, s\<lparr>calls := calls s @ [ListCall (list_request pageToken)]\<rparr>)
      | (Some r, None) \<Rightarrow>
          if list_Code r \<noteq> 0
          then Some (Returned (Inl (ApiListError (list_Code r) (list_Msg r))),
                     s\<lparr>calls := calls s @ [ListCall (list_request pageToken)]\<rparr>)
          else (case list_Data r of
                  None \<Rightarrow> Some (Panic, s\<lparr>calls := calls s @ [ListCall (list_request pageToken)]\<rparr>)
                | Some d \<Rightarrow>
                    (case HasMore d of
                       None \<Rightarrow>
                         Some (Returned (Inr (chatIDs @ item_ids (Items d))),
                               s\<lparr>calls := calls s @ [ListCall (list_request pageToken)]\<rparr>)
                     | Some hasMore \<Rightarrow>
                         if \<not> hasMore
                         then Some (Returned (Inr (chatIDs @ item_ids (Items d))),
                                    s\<lparr>calls := calls s @ [ListCall (list_request pageToken)]\<rparr>)
                         else (case PageToken d of
                                 None \<Rightarrow>
                                   Some (Returned (Inr (chatIDs @ item_ids (Items d))),
                                         s\<lparr>calls := calls s @ [ListCall (list_request pageToken)]\<rparr>)
                               | Some t \<Rightarrow>
                                   GetChatList_loop P
                                     (s\<lparr>calls := calls s @ [ListCall (list_request pageToken)]\<rparr>)
                                     (chatIDs @ item_ids (Items d)) t))))"

definition GetChatList ::
  "platform \<Rightarrow> LarkService \<Rightarrow> ((error + string list) outcome \<times> LarkService) option" where
  "GetChatList P s = GetChatList_loop P s [] []"

text \<open>
  \<open>SendMessageToAllChats\<close>: the summary map, and the loop over the conversations with its
  two counters and the list of per-conversation records (\<open>entry_error\<close> is the \<open>error\<close> key,
  present in failed records only).
\<close>

record send_entry =
  entry_chat_id :: string
  entry_status :: string
  entry_error :: "error option"

record summary =
  total :: int
  success :: int
  failed :: int
  results :: "send_entry list"

fun send_loop ::
  "platform \<Rightarrow> string \<Rightarrow> string list \<Rightarrow> int \<Rightarrow> int \<Rightarrow> send_entry list \<Rightarrow> LarkService \<Rightarrow>
   (int \<times> int \<times> send_entry list) outcome \<times> LarkService" where
  "send_loop P content [] successCount failedCount res s =
     (Returned (successCount, failedCount, res), s)"
| "send_loop P content (chatID # rest) successCount failedCount res s =
     (case SendTextMessage P s chatID ''chat_id'' content of
        (Panic, s') \<Rightarrow> (Panic, s')
      | (Returned (Some e), s') \<Rightarrow>
          send_loop P content rest successCount (failedCount + 1)
            (res @ [\<lparr>entry_chat_id = chatID, entry_status = ''failed'', entry_error = Some e\<rparr>]) s'
      | (Returned None, s') \<Rightarrow>
          send_loop P content rest (successCount + 1) failedCount
            (res @ [\<lparr>entry_chat_id = chatID, entry_status = ''success'', entry_error = None\<rparr>]) s')"

definition SendMessageToAllChats ::
  "platform \<Rightarrow> LarkService \<Rightarrow> string \<Rightarrow> ((error + summary) outcome \<times> LarkService) option" where
  "SendMessageToAllChats P s content =
     (case GetChatList P s of
        None \<Rightarrow> None
      | Some (Panic, s1) \<Rightarrow> Some (Panic, s1)
      | Some (Returned (Inl e), s1) \<Rightarrow> Some (Returned (Inl (Wrapf ListFailed e)), s1)
      | Some (Returned (Inr chatIDs), s1) \<Rightarrow>
          if length chatIDs = 0
          then Some (Returned (Inr \<lparr>total = 0, success = 0, failed = 0, results = []\<rparr>), s1)
          else (case send_loop P content chatIDs 0 0 [] s1 of
                  (Panic, s2) \<Rightarrow> Some (Panic, s2)
                | (Returned (successCount, failedCount, res), s2) \<Rightarrow>
                    Some (Returned (Inr \<lparr>total = int (length chatIDs), success = successCount,
                                         failed = failedCount, results = res\<rparr>), s2)))"

section \<open>Event handler (package main)\<close>

text \<open>
  The message of an inbound event: the five fields the handler reads, each a pointer in
  the SDK's struct, so each may be absent.
\<close>

record event_message =
  em_MessageId :: "string option"
  em_ChatId :: "string option"
  em_MessageType :: "string option"
  em_ChatType :: "string option"
  em_Content :: "string option"

text \<open>What the handler works on: the service (tracker and client) and the store.\<close>

record World =
  larkService :: LarkService
  dbStorage :: Storage

text \<open>
  The two fixed prefixes of the reply and the fallback notice, as the bytes of the source's
  UTF-8 literals.
\<close>

definition zh_received :: string where
  "zh_received =
     [CHR 0xE6, CHR 0x94, CHR 0xB6, CHR 0xE5, CHR 0x88, CHR 0xB0, CHR 0xE4, CHR 0xBD, CHR 0xA0,
      CHR 0xE5, CHR 0x8F, CHR 0x91, CHR 0xE9, CHR 0x80, CHR 0x81, CHR 0xE7, CHR 0x9A, CHR 0x84,
      CHR 0xE6, CHR 0xB6, CHR 0x88, CHR 0xE6, CHR 0x81, CHR 0xAF] @ '': ''"

definition en_received :: string where
  "en_received = ''Received message: ''"

definition fallback_notice :: string where
  "fallback_notice =
     [CHR 0xE8, CHR 0xA7, CHR 0xA3, CHR 0xE6, CHR 0x9E, CHR 0x90, CHR 0xE6, CHR 0xB6, CHR 0x88,
      CHR 0xE6, CHR 0x81, CHR 0xAF, CHR 0xE5, CHR 0xA4, CHR 0xB1, CHR 0xE8, CHR 0xB4, CHR 0xA5,
      CHR 0xEF, CHR 0xBC, CHR 0x8C, CHR 0xE8, CHR 0xAF, CHR 0xB7, CHR 0xE5, CHR 0x8F, CHR 0x91,
      CHR 0xE9, CHR 0x80, CHR 0x81, CHR 0xE6, CHR 0x96, CHR 0x87, CHR 0xE6, CHR 0x9C, CHR 0xAC,
      CHR 0xE6, CHR 0xB6, CHR 0x88, CHR 0xE6, CHR 0x81, CHR 0xAF, CHR 0x0A] @
     ''parse message failed, please send text message''"

text \<open>
  Tracking the conversation: guarded by \<open>ChatId != nil\<close>, it reads \<open>*ChatType\<close> unguarded.
\<close>

definition track_recent :: "event_message \<Rightarrow> LarkService \<Rightarrow> LarkService outcome" where
  "track_recent ev s =
     (case em_ChatId ev of
        None \<Rightarrow> Returned s
      | Some chatId \<Rightarrow>
          (case em_ChatType ev of
             None \<Rightarrow> Panic
           | Some chatType \<Rightarrow>
               Returned (UpdateRecentChat chatId (if chatType = ''p2p'' then ''p2p'' else ''group'') s)))"

text \<open>
  Saving the message: only with both ids present; an absent content or kind is stored as
  the empty string; the error of \<open>SaveMessage\<close> is logged and nothing more.
\<close>

definition save_inbound ::
  "(time \<Rightarrow> string) \<Rightarrow> time \<Rightarrow> error option \<Rightarrow> event_message \<Rightarrow> Storage \<Rightarrow> Storage" where
  "save_inbound enc now fault ev db =
     (case (em_MessageId ev, em_ChatId ev) of
        (Some messageId, Some chatId) \<Rightarrow>
          (let content = (case em_Content ev of Some c \<Rightarrow> c | None \<Rightarrow> []);
               messageTypeStr = (case em_MessageType ev of Some t \<Rightarrow> t | None \<Rightarrow> []);
               msg = \<lparr>ID = 0, ChatID = chatId, MessageID = messageId, SenderID = [],
                      SenderType = ''user'', Content = content, MessageType = messageTypeStr,
                      CreatedAt = now\<rparr>
           in case SaveMessage enc fault db msg of
                Inl e \<Rightarrow> db
              | Inr db' \<Rightarrow> db')
      | _ \<Rightarrow> db)"

text \<open>
  Parsing the content: \<open>unmarshal\<close> is \<open>json.Unmarshal\<close> into a map from strings to strings
  (\<open>None\<close> is its error). Both \<open>*Content\<close> and, once the parse succeeded, \<open>*MessageType\<close> are
  read unguarded. A key the map lacks reads as the empty string.
\<close>

definition parse_content ::
  "(string \<Rightarrow> (string \<rightharpoonup> string) option) \<Rightarrow> event_message \<Rightarrow> (string \<rightharpoonup> string) outcome" where
  "parse_content unmarshal ev =
     (case em_Content ev of
        None \<Rightarrow> Panic
      | Some c \<Rightarrow>
          (case unmarshal c of
             None \<Rightarrow> Returned [''text'' \<mapsto> fallback_notice]
           | Some respContent \<Rightarrow>
               (case em_MessageType ev of
                  None \<Rightarrow> Panic
                | Some messageType \<Rightarrow>
                    if messageType \<noteq> ''text''
                    then Returned [''text'' \<mapsto> fallback_notice]
                    else Returned respContent)))"

definition map_text :: "(string \<rightharpoonup> string) \<Rightarrow> string" where
  "map_text respContent = (case respContent ''text'' of Some t \<Rightarrow> t | None \<Rightarrow> [])"

definition reply_lines :: "string \<Rightarrow> string list" where
  "reply_lines text = [zh_received @ text, en_received @ text]"

text \<open>
  Sending the reply. The request is built before the call, so an absent id panics before
  anything is sent. After the call both branches read the response whenever the call
  failed or was unsuccessful; with a nil response that read (or \<open>resp.Success()\<close> itself)
  panics.
\<close>

definition send_reply ::
  "platform \<Rightarrow> event_message \<Rightarrow> string list \<Rightarrow> LarkService \<Rightarrow> error option outcome \<times> LarkService" where
  "send_reply P ev content s =
     (case em_ChatType ev of
        None \<Rightarrow> (Panic, s)
      | Some chatType \<Rightarrow>
          if chatType = ''p2p''
          then (case em_ChatId ev of
                  None \<Rightarrow> (Panic, s)
                | Some chatId \<Rightarrow>
                    (let req = \<lparr>receive_id_type = ''chat_id'', create_msg_type = ''text'',
                                receive_id = chatId, create_content = content\<rparr>;
                         s' = s\<lparr>calls := calls s @ [CreateCall req]\<rparr>
                     in case fst (im_message_create P (length (calls s)) req) of
                          None \<Rightarrow> (Panic, s')
                        | Some resp \<Rightarrow> (Returned None, s')))
          else (case em_MessageId ev of
                  None \<Rightarrow> (Panic, s)
                | Some messageId \<Rightarrow>
                    (let req = \<lparr>reply_message_id = messageId, reply_msg_type = ''text'',
                                reply_content = content\<rparr>;
                         s' = s\<lparr>calls := calls s @ [ReplyCall req]\<rparr>
                     in case fst (im_message_reply P (length (calls s)) req) of
                          None \<Rightarrow> (Panic, s')
                        | Some resp \<Rightarrow> (Returned None, s'))))"

text \<open>
  The handler registered with \<open>OnP2MessageReceiveV1\<close>: track, save, parse, reply. It
  returns nil on every path that returns; a panic keeps what was done before it.
\<close>

definition OnP2MessageReceiveV1 ::
  "platform \<Rightarrow> (time \<Rightarrow> string) \<Rightarrow> time \<Rightarrow> error option \<Rightarrow> (string \<Rightarrow> (string \<rightharpoonup> string) option) \<Rightarrow>
   event_message \<Rightarrow> World \<Rightarrow> error option outcome \<times> World" where
  "OnP2MessageReceiveV1 P enc now fault unmarshal ev w =
     (case track_recent ev (larkService w) of
        Panic \<Rightarrow> (Panic, w)
      | Returned s1 \<Rightarrow>
          (let w1 = w\<lparr>larkService := s1, dbStorage := save_inbound enc now fault ev (dbStorage w)\<rparr>
           in case parse_content unmarshal ev of
                Panic \<Rightarrow> (Panic, w1)
              | Returned respContent \<Rightarrow>
                  (case send_reply P ev (reply_lines (map_text respContent)) s1 of
                     (r, s2) \<Rightarrow> (r, w1\<lparr>larkService := s2\<rparr>))))"

text \<open>The i-th page fetch of a listing run that starts at position \<open>c\<close> with token \<open>tok\<close>.\<close>

definition next_token :: "list_resp option \<times> error option \<Rightarrow> string" where
  "next_token ret =
     (case fst ret of
        None \<Rightarrow> []
      | Some r \<Rightarrow>
          (case list_Data r of
             None \<Rightarrow> []
           | Some d \<Rightarrow> (case PageToken d of None \<Rightarrow> [] | Some t \<Rightarrow> t)))"

fun fetch_at :: "platform \<Rightarrow> nat \<Rightarrow> string \<Rightarrow> nat \<Rightarrow> list_resp option \<times> error option" where
  "fetch_at P c tok 0 = im_chat_list P c (list_request tok)"
| "fetch_at P c tok (Suc i) =
     fetch_at P (Suc c) (next_token (im_chat_list P c (list_request tok))) i"

text \<open>
  A fetch failed: a transport error, or a response that is not successful. A fetch
  delivered a page: no error, a successful response, its data. The page announces a
  further one: \<open>has_more\<close> set and true, and a token.
\<close>

definition fetch_failed :: "list_resp option \<times> error option \<Rightarrow> bool" where
  "fetch_failed ret \<longleftrightarrow>
     snd ret \<noteq> None \<or> (case fst ret of None \<Rightarrow> False | Some r \<Rightarrow> list_Code r \<noteq> 0)"

definition fetched :: "list_resp option \<times> error option \<Rightarrow> list_data option" where
  "fetched ret =
     (if snd ret \<noteq> None then None
      else case fst ret of
             None \<Rightarrow> None
           | Some r \<Rightarrow> if list_Code r \<noteq> 0 then None else list_Data r)"

definition announces_next :: "list_data \<Rightarrow> bool" where
  "announces_next d \<longleftrightarrow> HasMore d = Some True \<and> PageToken d \<noteq> None"

definition page_ids :: "list_resp option \<times> error option \<Rightarrow> string list" where
  "page_ids ret = (case fetched ret of None \<Rightarrow> [] | Some d \<Rightarrow> item_ids (Items d))"

text \<open>
  A platform whose answers to \<open>create\<close> are well formed: an error, or a response which,
  when successful, carries the id of the message sent.
\<close>

definition create_answer_ok :: "msg_resp option \<times> error option \<Rightarrow> bool" where
  "create_answer_ok ret \<longleftrightarrow>
     snd ret \<noteq> None \<or>
     (case fst ret of
        None \<Rightarrow> False
      | Some r \<Rightarrow>
          \<not> Success r \<or>
          (case resp_Data r of None \<Rightarrow> False | Some d \<Rightarrow> data_MessageId d \<noteq> None))"

section \<open>Notions used in the statements\<close>

text \<open>The request \<open>SendTextMessage\<close> builds for a conversation id and a body.\<close>

definition chat_text_request :: "string \<Rightarrow> string \<Rightarrow> create_req" where
  "chat_text_request content chatID =
     \<lparr>receive_id_type = ''chat_id'', create_msg_type = ''text'',
      receive_id = chatID, create_content = [content]\<rparr>"

text \<open>An answer to \<open>create\<close> that \<open>SendTextMessage\<close> turns into an error.\<close>

definition send_fails :: "msg_resp option \<times> error option \<Rightarrow> bool" where
  "send_fails ret \<longleftrightarrow>
     snd ret \<noteq> None \<or> (case fst ret of None \<Rightarrow> False | Some r \<Rightarrow> \<not> Success r)"

text \<open>The two shapes of a per-conversation record: failed with an error, or success without.\<close>

definition entry_ok :: "send_entry \<Rightarrow> bool" where
  "entry_ok e \<longleftrightarrow>
     (entry_status e = ''failed'' \<and> entry_error e \<noteq> None) \<or>
     (entry_status e = ''success'' \<and> entry_error e = None)"

text \<open>The lines of text a call carries.\<close>

definition call_content :: "call \<Rightarrow> string list" where
  "call_content c =
     (case c of CreateCall r \<Rightarrow> create_content r | ReplyCall r \<Rightarrow> reply_content r | ListCall r \<Rightarrow> [])"

section \<open>Concrete inputs\<close>

text \<open>Tables, a driver encoding and a layout parser over a handful of timestamps.\<close>

definition mk_row :: "int \<Rightarrow> string \<Rightarrow> string \<Rightarrow> string \<Rightarrow> row" where
  "mk_row i chat mid t =
     \<lparr>col_id = i, col_chat_id = chat, col_message_id = mid, col_sender_id = [],
      col_sender_type = ''user'', col_content = ''{}'', col_message_type = ''text'',
      col_created_at = t\<rparr>"

definition example_store :: Storage where
  "example_store =
     \<lparr>messages =
        [mk_row 1 ''oc_1'' ''om_1'' ''2024-01-01 00:00:01'',
         mk_row 2 ''oc_1'' ''om_2'' ''2024-01-01 00:00:02'',
         mk_row 3 ''oc_2'' ''om_3'' ''2024-01-01 00:00:02'',
         mk_row 4 ''oc_1'' ''om_4'' ''2024-01-01 00:00:03'',
         mk_row 5 ''oc_1'' ''om_5'' ''2024-01-01 00:00:04''],
      seq = 5\<rparr>"

text \<open>A table with a timestamp the layout does not parse.\<close>

definition zulu_store :: Storage where
  "zulu_store =
     \<lparr>messages =
        [mk_row 1 ''oc_1'' ''om_1'' ''2024-01-01 00:00:01'',
         mk_row 2 ''oc_1'' ''om_2'' ''2024-01-01T00:00:02Z''],
      seq = 2\<rparr>"

text \<open>A table with two messages of one conversation stamped with the same second.\<close>

definition tie_store :: Storage where
  "tie_store =
     \<lparr>messages =
        [mk_row 1 ''oc_1'' ''om_1'' ''2024-01-01 00:00:01'',
         mk_row 2 ''oc_1'' ''om_2'' ''2024-01-01 00:00:01''],
      seq = 2\<rparr>"

definition example_enc :: "time \<Rightarrow> string" where
  "example_enc t = (if t = 1 then ''2024-01-01 00:00:01'' else ''2024-01-01 00:00:02'')"

definition example_parse :: "string \<Rightarrow> time option" where
  "example_parse t =
     (if t = ''2024-01-01 00:00:01'' then Some 1
      else if t = ''2024-01-01 00:00:02'' then Some 2
      else if t = ''2024-01-01 00:00:03'' then Some 3
      else if t = ''2024-01-01 00:00:04'' then Some 4
      else None)"

definition example_message :: "string \<Rightarrow> time \<Rightarrow> Message" where
  "example_message body t =
     \<lparr>ID = 0, ChatID = ''oc_1'', MessageID = ''om_1'', SenderID = [], SenderType = ''user'',
      Content = body, MessageType = ''text'', CreatedAt = t\<rparr>"

text \<open>
  A platform that lists three conversations on two pages and fails every send to the
  second of them; and one whose second page fails.
\<close>

definition ok_resp :: msg_resp where
  "ok_resp = \<lparr>resp_Code = 0, resp_Msg = ''success'', resp_RequestId = ''req'',
              resp_Data = Some \<lparr>data_MessageId = Some ''om_out''\<rparr>\<rparr>"

definition page_one :: list_data where
  "page_one = \<lparr>Items = [\<lparr>item_ChatId = Some ''oc_1''\<rparr>, \<lparr>item_ChatId = Some ''oc_2''\<rparr>],
               HasMore = Some True, PageToken = Some ''page2''\<rparr>"

definition page_two :: list_data where
  "page_two = \<lparr>Items = [\<lparr>item_ChatId = Some ''oc_3''\<rparr>], HasMore = Some False, PageToken = None\<rparr>"

definition example_platform :: platform where
  "example_platform =
     \<lparr>im_message_create =
        (\<lambda>i req. if receive_id req = ''oc_2'' then (None, Some (External ''timeout''))
                  else (Some ok_resp, None)),
      im_message_reply = (\<lambda>i req. (Some ok_resp, None)),
      im_chat_list =
        (\<lambda>i req. if page_token req = None
                  then (Some \<lparr>list_Code = 0, list_Msg = ''success'', list_Data = Some page_one\<rparr>, None)
                  else (Some \<lparr>list_Code = 0, list_Msg = ''success'', list_Data = Some page_two\<rparr>, None))\<rparr>"

definition broken_platform :: platform where
  "broken_platform =
     example_platform\<lparr>im_chat_list :=
        (\<lambda>i req. if page_token req = None then im_chat_list example_platform i req
                  else (None, Some (External ''timeout'')))\<rparr>"

text \<open>A platform on which the bot has joined no conversation.\<close>

definition empty_platform :: platform where
  "empty_platform =
     example_platform\<lparr>im_chat_list :=
        (\<lambda>i req. (Some \<lparr>list_Code = 0, list_Msg = ''success'',
                            list_Data = Some \<lparr>Items = [], HasMore = Some False, PageToken = None\<rparr>\<rparr>,
                   None))\<rparr>"

text \<open>
  Events, a JSON decoder that knows one payload (the object with the one key \<open>text\<close> and
  the value \<open>hi\<close>, double quotes as the byte 0x22), and the state at start-up.
\<close>

definition example_payload :: string where
  "example_payload =
     ''{'' @ [CHR 0x22] @ ''text'' @ [CHR 0x22] @ '':'' @ [CHR 0x22] @ ''hi'' @ [CHR 0x22] @ ''}''"

definition example_unmarshal :: "string \<Rightarrow> (string \<rightharpoonup> string) option" where
  "example_unmarshal c = (if c = example_payload then Some [''text'' \<mapsto> ''hi''] else None)"

definition example_event :: "string \<Rightarrow> string \<Rightarrow> string \<Rightarrow> event_message" where
  "example_event chatType messageType c =
     \<lparr>em_MessageId = Some ''om_1'', em_ChatId = Some ''oc_1'', em_MessageType = Some messageType,
      em_ChatType = Some chatType, em_Content = Some c\<rparr>"

definition ev_no_content :: event_message where
  "ev_no_content =
     \<lparr>em_MessageId = Some ''om_1'', em_ChatId = Some ''oc_1'', em_MessageType = Some ''text'',
      em_ChatType = Some ''p2p'', em_Content = None\<rparr>"

text \<open>An event of a group conversation whose content parses and whose message kind is absent.\<close>

definition ev_no_kind :: event_message where
  "ev_no_kind =
     \<lparr>em_MessageId = Some ''om_1'', em_ChatId = Some ''oc_1'', em_MessageType = None,
      em_ChatType = Some ''group'', em_Content = Some example_payload\<rparr>"

definition example_world :: World where
  "example_world = \<lparr>larkService = NewLarkService, dbStorage = NewStorage\<rparr>"

section \<open>The store: upsert\<close>

lemma upsert_absent:
  "\<forall>x \<in> set rs. col_message_id x \<noteq> k \<Longrightarrow>
   filter (\<lambda>r. col_message_id r = k)
     (map (\<lambda>r. if col_message_id r = k then r\<lparr>col_content := c, col_created_at := t\<rparr> else r) rs) = []"
  by (induction rs) auto

lemma upsert_existing:
  assumes "distinct (map col_message_id rs)" "r \<in> set rs" "col_message_id r = k"
  shows "filter (\<lambda>r. col_message_id r = k)
           (map (\<lambda>r. if col_message_id r = k then r\<lparr>col_content := c, col_created_at := t\<rparr> else r) rs)
         = [r\<lparr>col_content := c, col_created_at := t\<rparr>]"
  using assms
proof (induction rs)
  case Nil
  then show ?case by simp
next
  case (Cons a rs)
  show ?case
  proof (cases "col_message_id a = k")
    case True
    have no: "\<forall>x \<in> set rs. col_message_id x \<noteq> k"
      using True Cons.prems(1) by (auto simp: image_iff)
    then have "r \<notin> set rs" using Cons.prems(3) by auto
    then have "a = r" using Cons.prems(2) by simp
    then show ?thesis using True upsert_absent[OF no] by simp
  next
    case False
    with Cons.prems have "r \<in> set rs" by auto
    with False Cons show ?thesis by simp
  qed
qed

lemma upsert_map_message_id:
  "col_message_id \<circ> (\<lambda>r. if col_message_id r = k then r\<lparr>col_content := c, col_created_at := t\<rparr> else r)
   = col_message_id"
  by (auto simp: fun_eq_iff)

lemma upsert_map_id:
  "col_id \<circ> (\<lambda>r. if col_message_id r = k then r\<lparr>col_content := c, col_created_at := t\<rparr> else r)
   = col_id"
  by (auto simp: fun_eq_iff)

text \<open>Every statement the store runs keeps the schema's constraints.\<close>

lemma store_ok_NewStorage: "store_ok NewStorage"
  by (simp add: store_ok_def NewStorage_def)

lemma store_ok_insert_on_conflict_update:
  assumes "store_ok s"
  shows "store_ok (insert_on_conflict_update enc s msg)"
proof (cases "MessageID msg \<in> set (map col_message_id (messages s))")
  case True
  then show ?thesis using assms
    by (auto simp add: store_ok_def insert_on_conflict_update_def upsert_map_message_id upsert_map_id
        list_all_iff)
next
  case False
  have "col_id r \<noteq> seq s + 1" if "r \<in> set (messages s)" for r
    using assms that by (auto simp: store_ok_def list_all_iff)
  then show ?thesis using False assms
    by (auto simp: store_ok_def insert_on_conflict_update_def list_all_iff)
qed

lemma store_ok_SaveMessage:
  "store_ok s \<Longrightarrow> SaveMessage enc fault s msg = Inr s' \<Longrightarrow> store_ok s'"
  by (auto simp: SaveMessage_def store_ok_insert_on_conflict_update split: option.splits)

lemma store_ok_DeleteOldMessages:
  assumes "store_ok s" and "DeleteOldMessages ob sel_fault del_fault s chatID keepCount = Inr s'"
  shows "store_ok s'"
proof -
  have keep: "store_ok (s\<lparr>messages := filter p (messages s)\<rparr>)" for p
    using assms(1) by (auto simp: store_ok_def distinct_map_filter list_all_iff)
  from assms(2) show ?thesis
    by (auto simp: DeleteOldMessages_def Let_def keep
             split: option.splits read_fault.splits if_splits)
qed

lemma one_row_after_upsert:
  assumes "store_ok s"
  shows "\<exists>r. filter (\<lambda>r. col_message_id r = MessageID msg) (messages (insert_on_conflict_update enc s msg)) = [r]
           \<and> col_content r = Content msg \<and> col_created_at r = enc (CreatedAt msg)"
proof (cases "MessageID msg \<in> set (map col_message_id (messages s))")
  case True
  then obtain r where r: "r \<in> set (messages s)" "col_message_id r = MessageID msg" by auto
  from assms have d: "distinct (map col_message_id (messages s))" by (simp add: store_ok_def)
  show ?thesis using True upsert_existing[OF d r]
    by (simp add: insert_on_conflict_update_def)
next
  case False
  then have "filter (\<lambda>r. col_message_id r = MessageID msg) (messages s) = []"
    by (auto simp: filter_empty_conv image_iff)
  then show ?thesis using False
    by (simp add: insert_on_conflict_update_def)
qed

text \<open>
  C3. On a table that meets the schema's constraints, two calls of \<open>SaveMessage\<close> with the
  same \<open>MessageID\<close> both succeed when the engine reports no fault (the conflict on the
  UNIQUE column is not an error), and afterwards exactly one row has that \<open>message_id\<close>;
  its \<open>content\<close> and \<open>created_at\<close> are those of the second call.
\<close>

theorem SaveMessage_twice_last_writer_wins:
  assumes "store_ok s" and "MessageID m2 = MessageID m1"
  shows "\<exists>s1 s2 r. SaveMessage enc None s m1 = Inr s1 \<and> SaveMessage enc None s1 m2 = Inr s2 \<and>
           filter (\<lambda>r. col_message_id r = MessageID m1) (messages s2) = [r] \<and>
           col_content r = Content m2 \<and> col_created_at r = enc (CreatedAt m2)"
proof -
  let ?s1 = "insert_on_conflict_update enc s m1"
  have ok1: "store_ok ?s1" using assms(1) by (rule store_ok_insert_on_conflict_update)
  from one_row_after_upsert[OF ok1, of m2 enc] assms(2)
  show ?thesis by (auto simp: SaveMessage_def)
qed

theorem SaveMessage_twice_last_writer_wins_witness:
  "store_ok NewStorage \<and>
   MessageID (example_message ''second'' 2) = MessageID (example_message ''first'' 1) \<and>
   SaveMessage example_enc None NewStorage (example_message ''first'' 1) =
     Inr \<lparr>messages = [(mk_row 1 ''oc_1'' ''om_1'' ''2024-01-01 00:00:01'')\<lparr>col_content := ''first''\<rparr>],
          seq = 1\<rparr> \<and>
   SaveMessage example_enc None
     \<lparr>messages = [(mk_row 1 ''oc_1'' ''om_1'' ''2024-01-01 00:00:01'')\<lparr>col_content := ''first''\<rparr>],
      seq = 1\<rparr> (example_message ''second'' 2) =
     Inr \<lparr>messages = [(mk_row 1 ''oc_1'' ''om_1'' ''2024-01-01 00:00:02'')\<lparr>col_content := ''second''\<rparr>],
          seq = 1\<rparr>"
  using SaveMessage_twice_last_writer_wins[OF store_ok_NewStorage,
          of "example_message ''second'' 2" "example_message ''first'' 1" example_enc]
  by (simp add: store_ok_def SaveMessage_def insert_on_conflict_update_def NewStorage_def
        example_message_def example_enc_def mk_row_def)

section \<open>The store: reading and trimming\<close>

lemma length_scan_rows: "length (scan_rows parse clk k rs) = length rs"
  by (induction rs arbitrary: k) (auto split: option.splits)

lemma carries_scan_rows: "list_all2 carries (scan_rows parse clk k rs) rs"
  by (induction rs arbitrary: k) (auto simp: carries_def scan_row_def split: option.splits)

lemma scan_rows_nth:
  "i < length rs \<Longrightarrow>
   scan_rows parse clk k rs ! i =
     scan_row (rs ! i)
       (case parse (col_created_at (rs ! i)) of
          Some t \<Rightarrow> t
        | None \<Rightarrow> clk (k + length (filter (\<lambda>r. parse (col_created_at r) = None) (take i rs))))"
proof (induction rs arbitrary: k i)
  case Nil
  then show ?case by simp
next
  case (Cons r rs)
  show ?case
  proof (cases i)
    case 0
    then show ?thesis by (simp split: option.splits)
  next
    case (Suc j)
    with Cons.prems have j: "j < length rs" by simp
    show ?thesis using Cons.IH[OF j]
      by (cases "parse (col_created_at r)") (simp_all add: Suc split: option.splits)
  qed
qed

lemma mset_split_sets:
  assumes "mset a + mset b = mset c"
  shows "set a \<union> set b = set c" and "distinct c \<Longrightarrow> distinct (a @ b)"
proof -
  have e: "mset (a @ b) = mset c" using assms by simp
  then have "set (a @ b) = set c" by (rule mset_eq_setD)
  then show "set a \<union> set b = set c" by simp
  show "distinct c \<Longrightarrow> distinct (a @ b)"
    using mset_eq_imp_distinct_iff[OF e] by simp
qed

lemma list_all2_setD1: "list_all2 P xs ys \<Longrightarrow> x \<in> set xs \<Longrightarrow> \<exists>y \<in> set ys. P x y"
  by (induction rule: list_all2_induct) auto

lemma select_recent_props:
  assumes ok: "order_by_created_at_desc_ok ob" and n: "0 \<le> n"
  obtains rest where
    "mset (select_recent ob s chatID n) + mset rest
       = mset (filter (\<lambda>r. col_chat_id r = chatID) (messages s))"
    "length (select_recent ob s chatID n) =
       min (nat n) (length (filter (\<lambda>r. col_chat_id r = chatID) (messages s)))"
    "sorted_wrt (\<lambda>a b. col_created_at b \<le> col_created_at a) (select_recent ob s chatID n)"
    "\<forall>a \<in> set (select_recent ob s chatID n). \<forall>b \<in> set rest. col_created_at b \<le> col_created_at a"
proof -
  let ?c = "filter (\<lambda>r. col_chat_id r = chatID) (messages s)"
  from ok have m: "mset (ob ?c) = mset ?c"
    and srt: "sorted_wrt (\<lambda>a b. col_created_at b \<le> col_created_at a) (ob ?c)"
    by (simp_all add: order_by_created_at_desc_ok_def)
  have sel: "select_recent ob s chatID n = take (nat n) (ob ?c)"
    using n by (simp add: select_recent_def sql_limit_def)
  have sp: "ob ?c = take (nat n) (ob ?c) @ drop (nat n) (ob ?c)" by simp
  have l: "length (ob ?c) = length ?c" using m by (metis size_mset)
  have 1: "mset (take (nat n) (ob ?c)) + mset (drop (nat n) (ob ?c)) = mset ?c"
    using m sp by (metis mset_append)
  have 2: "length (take (nat n) (ob ?c)) = min (nat n) (length ?c)"
    using l by simp
  from srt sp have s2: "sorted_wrt (\<lambda>a b. col_created_at b \<le> col_created_at a)
                          (take (nat n) (ob ?c) @ drop (nat n) (ob ?c))"
    by simp
  then have 3: "sorted_wrt (\<lambda>a b. col_created_at b \<le> col_created_at a) (take (nat n) (ob ?c))"
    and 4: "\<forall>a \<in> set (take (nat n) (ob ?c)). \<forall>b \<in> set (drop (nat n) (ob ?c)).
              col_created_at b \<le> col_created_at a"
    unfolding sorted_wrt_append by blast+
  show ?thesis using that[of "drop (nat n) (ob ?c)"] 1 2 3 4 unfolding sel by blast
qed

text \<open>
  The stable sort is an admissible ordering; so is every ordering of the engine that sorts
  by \<open>created_at\<close> alone.
\<close>

lemma mset_insert_desc: "mset (insert_desc r xs) = add_mset r (mset xs)"
  by (induction xs) auto

lemma set_insert_desc: "set (insert_desc r xs) = insert r (set xs)"
  by (induction xs) auto

lemma sorted_insert_desc:
  "sorted_wrt (\<lambda>a b. col_created_at b \<le> col_created_at a) xs \<Longrightarrow>
   sorted_wrt (\<lambda>a b. col_created_at b \<le> col_created_at a) (insert_desc r xs)"
proof (induction xs)
  case Nil
  then show ?case by simp
next
  case (Cons x xs)
  show ?case
  proof (cases "col_created_at x \<le> col_created_at r")
    case True
    with Cons.prems show ?thesis by (auto intro: order_trans)
  next
    case False
    then have "col_created_at r \<le> col_created_at x" by simp
    with False Cons show ?thesis by (auto simp: set_insert_desc)
  qed
qed

lemma order_by_stable_ok: "order_by_created_at_desc_ok order_by_stable"
proof -
  have "mset (foldr insert_desc rs []) = mset rs \<and>
        sorted_wrt (\<lambda>a b. col_created_at b \<le> col_created_at a) (foldr insert_desc rs [])" for rs
    by (induction rs) (simp_all add: mset_insert_desc sorted_insert_desc)
  then show ?thesis by (simp add: order_by_created_at_desc_ok_def order_by_stable_def)
qed

lemma store_ok_example_store: "store_ok example_store"
  by (simp add: store_ok_def example_store_def mk_row_def)

text \<open>
  C4. With no read fault, \<open>GetMessagesByChatID\<close> returns the rows of the query
  \<open>select_recent\<close> (limit 50 when the limit given is not positive) in reverse: at most
  \<open>limit\<close> messages, all of the conversation, each carrying its row; the rows selected are
  as many of the conversation's rows as the limit allows, no row left out has a later
  \<open>created_at\<close> than a row selected, and the messages come oldest first.
\<close>

theorem GetMessagesByChatID_recent_oldest_first:
  assumes ok: "order_by_created_at_desc_ok ob"
  shows "\<exists>ms sel rest.
           GetMessagesByChatID ob parse clk None s chatID limit = Inr ms \<and>
           length ms \<le> nat (if limit \<le> 0 then 50 else limit) \<and>
           (\<forall>m \<in> set ms. ChatID m = chatID) \<and>
           sel = select_recent ob s chatID (if limit \<le> 0 then 50 else limit) \<and>
           list_all2 carries ms (rev sel) \<and>
           mset sel + mset rest = mset (filter (\<lambda>r. col_chat_id r = chatID) (messages s)) \<and>
           length sel = min (nat (if limit \<le> 0 then 50 else limit))
                            (length (filter (\<lambda>r. col_chat_id r = chatID) (messages s))) \<and>
           (\<forall>a \<in> set sel. \<forall>b \<in> set rest. col_created_at b \<le> col_created_at a) \<and>
           sorted_wrt (\<lambda>a b. col_created_at a \<le> col_created_at b) (rev sel)"
proof -
  let ?n = "if limit \<le> 0 then 50 else limit"
  let ?sel = "select_recent ob s chatID ?n"
  let ?ms = "rev (scan_rows parse clk 0 ?sel)"
  have npos: "0 \<le> ?n" by simp
  from select_recent_props[OF ok npos, of s chatID] obtain rest where
    m: "mset ?sel + mset rest = mset (filter (\<lambda>r. col_chat_id r = chatID) (messages s))" and
    len: "length ?sel = min (nat ?n) (length (filter (\<lambda>r. col_chat_id r = chatID) (messages s)))" and
    srt: "sorted_wrt (\<lambda>a b. col_created_at b \<le> col_created_at a) ?sel" and
    cut: "\<forall>a \<in> set ?sel. \<forall>b \<in> set rest. col_created_at b \<le> col_created_at a"
    by blast
  have res: "GetMessagesByChatID ob parse clk None s chatID limit = Inr ?ms"
    by (simp add: GetMessagesByChatID_def)
  have c: "list_all2 carries ?ms (rev ?sel)"
    by (simp add: carries_scan_rows)
  have l: "length ?ms \<le> nat ?n" using len by (simp add: length_scan_rows)
  have sub: "set ?sel \<subseteq> set (filter (\<lambda>r. col_chat_id r = chatID) (messages s))"
    using mset_split_sets(1)[OF m] by blast
  have chat: "\<forall>m \<in> set ?ms. ChatID m = chatID"
  proof
    fix m assume "m \<in> set ?ms"
    then have "\<exists>r \<in> set (rev ?sel). carries m r" by (rule list_all2_setD1[OF c])
    then obtain r where "r \<in> set ?sel" "carries m r" by auto
    then show "ChatID m = chatID" using sub by (auto simp: carries_def)
  qed
  have asc: "sorted_wrt (\<lambda>a b. col_created_at a \<le> col_created_at b) (rev ?sel)"
    using srt by (simp add: sorted_wrt_rev)
  show ?thesis
    by (rule exI[of _ ?ms], rule exI[of _ ?sel], rule exI[of _ rest])
       (intro conjI refl res l chat c m len cut asc)
qed

theorem GetMessagesByChatID_recent_oldest_first_witness:
  "order_by_created_at_desc_ok order_by_stable \<and>
   GetMessagesByChatID order_by_stable example_parse (\<lambda>k. 9) None example_store ''oc_1'' 3 =
     Inr [scan_row (mk_row 2 ''oc_1'' ''om_2'' ''2024-01-01 00:00:02'') 2,
          scan_row (mk_row 4 ''oc_1'' ''om_4'' ''2024-01-01 00:00:03'') 3,
          scan_row (mk_row 5 ''oc_1'' ''om_5'' ''2024-01-01 00:00:04'') 4]"
proof -
  have run: "GetMessagesByChatID order_by_stable example_parse (\<lambda>k. 9) None example_store ''oc_1'' 3 =
     Inr [scan_row (mk_row 2 ''oc_1'' ''om_2'' ''2024-01-01 00:00:02'') 2,
          scan_row (mk_row 4 ''oc_1'' ''om_4'' ''2024-01-01 00:00:03'') 3,
          scan_row (mk_row 5 ''oc_1'' ''om_5'' ''2024-01-01 00:00:04'') 4]"
    by (simp add: GetMessagesByChatID_def select_recent_def sql_limit_def
          order_by_stable_def example_store_def example_parse_def mk_row_def)
  show ?thesis
    using GetMessagesByChatID_recent_oldest_first[OF order_by_stable_ok,
            of example_parse "\<lambda>k. 9" example_store "''oc_1''" 3]
      order_by_stable_ok run
    by - (intro conjI; assumption)
qed

text \<open>
  C10. With no read fault the read succeeds whatever the timestamps are; a row of the query
  (the \<open>i\<close>-th, newest first) whose \<open>created_at\<close> does not parse is returned with all its
  other columns and, as \<open>CreatedAt\<close>, the reading of the clock taken for it: the \<open>k\<close>-th
  reading, where \<open>k\<close> rows before it failed to parse.
\<close>

theorem GetMessagesByChatID_unparsed_created_at_is_now:
  assumes sel: "sel = select_recent ob s chatID (if limit \<le> 0 then 50 else limit)"
    and i: "i < length sel"
    and bad: "parse (col_created_at (sel ! i)) = None"
  shows "\<exists>ms. GetMessagesByChatID ob parse clk None s chatID limit = Inr ms \<and>
              length ms = length sel \<and>
              carries (ms ! (length sel - 1 - i)) (sel ! i) \<and>
              CreatedAt (ms ! (length sel - 1 - i)) =
                clk (length (filter (\<lambda>r. parse (col_created_at r) = None) (take i sel)))"
proof -
  let ?ms = "rev (scan_rows parse clk 0 sel)"
  have res: "GetMessagesByChatID ob parse clk None s chatID limit = Inr ?ms"
    by (simp add: GetMessagesByChatID_def sel)
  have len: "length ?ms = length sel" by (simp add: length_scan_rows)
  have nth: "?ms ! (length sel - 1 - i) = scan_rows parse clk 0 sel ! i"
    using i by (simp add: rev_nth length_scan_rows)
  have "scan_rows parse clk 0 sel ! i =
          scan_row (sel ! i) (clk (length (filter (\<lambda>r. parse (col_created_at r) = None) (take i sel))))"
    using scan_rows_nth[OF i, of parse clk 0] bad by simp
  with nth have "carries (?ms ! (length sel - 1 - i)) (sel ! i)"
    and "CreatedAt (?ms ! (length sel - 1 - i)) =
           clk (length (filter (\<lambda>r. parse (col_created_at r) = None) (take i sel)))"
    by (simp_all add: carries_def scan_row_def)
  with res len show ?thesis by (intro exI[of _ ?ms] conjI)
qed

theorem GetMessagesByChatID_unparsed_created_at_is_now_witness:
  "[mk_row 2 ''oc_1'' ''om_2'' ''2024-01-01T00:00:02Z'', mk_row 1 ''oc_1'' ''om_1'' ''2024-01-01 00:00:01'']
     = select_recent order_by_stable zulu_store ''oc_1'' (if (0::int) \<le> 0 then 50 else 0) \<and>
   example_parse ''2024-01-01T00:00:02Z'' = None \<and>
   GetMessagesByChatID order_by_stable example_parse (\<lambda>k. 9) None zulu_store ''oc_1'' 0 =
     Inr [scan_row (mk_row 1 ''oc_1'' ''om_1'' ''2024-01-01 00:00:01'') 1,
          scan_row (mk_row 2 ''oc_1'' ''om_2'' ''2024-01-01T00:00:02Z'') 9]"
proof -
  have sel: "[mk_row 2 ''oc_1'' ''om_2'' ''2024-01-01T00:00:02Z'', mk_row 1 ''oc_1'' ''om_1'' ''2024-01-01 00:00:01'']
     = select_recent order_by_stable zulu_store ''oc_1'' (if (0::int) \<le> 0 then 50 else 0)"
    by (simp add: select_recent_def sql_limit_def order_by_stable_def zulu_store_def mk_row_def)
  have i: "(0::nat) < length [mk_row 2 ''oc_1'' ''om_2'' ''2024-01-01T00:00:02Z'',
                             mk_row 1 ''oc_1'' ''om_1'' ''2024-01-01 00:00:01'']"
    by simp
  have bad: "example_parse (col_created_at
               ([mk_row 2 ''oc_1'' ''om_2'' ''2024-01-01T00:00:02Z'',
                 mk_row 1 ''oc_1'' ''om_1'' ''2024-01-01 00:00:01''] ! 0)) = None"
    by (simp add: example_parse_def mk_row_def)
  have bad': "example_parse ''2024-01-01T00:00:02Z'' = None"
    by (simp add: example_parse_def)
  have run: "GetMessagesByChatID order_by_stable example_parse (\<lambda>k. 9) None zulu_store ''oc_1'' 0 =
     Inr [scan_row (mk_row 1 ''oc_1'' ''om_1'' ''2024-01-01 00:00:01'') 1,
          scan_row (mk_row 2 ''oc_1'' ''om_2'' ''2024-01-01T00:00:02Z'') 9]"
    by (simp add: GetMessagesByChatID_def select_recent_def sql_limit_def order_by_stable_def
          zulu_store_def example_parse_def mk_row_def)
  show ?thesis
    using GetMessagesByChatID_unparsed_created_at_is_now[where parse = example_parse
            and clk = "\<lambda>k. 9", OF sel i bad] sel bad' run
    by - (intro conjI; assumption)
qed

lemma filter_kept_chat:
  "filter (\<lambda>r. col_chat_id r = c) (filter (\<lambda>r. \<not> (col_chat_id r = c \<and> col_id r \<notin> K)) rs)
   = filter (\<lambda>r. col_id r \<in> K) (filter (\<lambda>r. col_chat_id r = c) rs)"
  by (induction rs) auto

lemma filter_other_chat:
  "filter (\<lambda>r. col_chat_id r \<noteq> c) (filter (\<lambda>r. \<not> (col_chat_id r = c \<and> col_id r \<notin> K)) rs)
   = filter (\<lambda>r. col_chat_id r \<noteq> c) rs"
  by (induction rs) auto

lemma kept_rows_by_id:
  assumes d: "distinct (map col_id rs)" and sub: "set sel \<subseteq> set rs"
  shows "filter (\<lambda>r. col_id r \<in> col_id ` set sel) rs = filter (\<lambda>r. r \<in> set sel) rs"
proof (rule filter_cong[OF refl])
  fix r assume r: "r \<in> set rs"
  show "(col_id r \<in> col_id ` set sel) = (r \<in> set sel)"
  proof
    assume "col_id r \<in> col_id ` set sel"
    then obtain x where x: "x \<in> set sel" "col_id x = col_id r" by auto
    with sub have "x \<in> set rs" by auto
    with d r x(2) have "x = r" by (meson distinct_map inj_onD)
    with x show "r \<in> set sel" by simp
  qed auto
qed

text \<open>
  C2, as the code has it. With an admissible ordering, a table that meets the schema's
  constraints, no fault and \<open>keepCount\<close> not negative, \<open>DeleteOldMessages\<close> succeeds; the rows
  of other conversations are untouched; of the conversation's rows \<open>keepCount\<close> remain (all
  of them when there are fewer), none for \<open>keepCount = 0\<close>; and no deleted row has a later
  \<open>created_at\<close> than a row that remains. Which rows of equal \<open>created_at\<close> remain is the
  engine's choice: the queries name no second sort key.
\<close>

theorem DeleteOldMessages_keeps_most_recent:
  assumes ok: "order_by_created_at_desc_ok ob"
    and inv: "store_ok s"
    and k: "0 \<le> keepCount"
  shows "\<exists>s'. DeleteOldMessages ob None None s chatID keepCount = Inr s' \<and>
           filter (\<lambda>r. col_chat_id r \<noteq> chatID) (messages s') =
             filter (\<lambda>r. col_chat_id r \<noteq> chatID) (messages s) \<and>
           set (messages s') \<subseteq> set (messages s) \<and>
           length (filter (\<lambda>r. col_chat_id r = chatID) (messages s')) =
             min (nat keepCount) (length (filter (\<lambda>r. col_chat_id r = chatID) (messages s))) \<and>
           (\<forall>a \<in> set (messages s'). \<forall>b \<in> set (messages s) - set (messages s').
              col_chat_id a = chatID \<longrightarrow>
              col_chat_id b = chatID \<and> col_created_at b \<le> col_created_at a) \<and>
           (keepCount = 0 \<longrightarrow> filter (\<lambda>r. col_chat_id r = chatID) (messages s') = [])"
proof -
  let ?c = "filter (\<lambda>r. col_chat_id r = chatID) (messages s)"
  let ?sel = "select_recent ob s chatID keepCount"
  let ?rs' = "filter (\<lambda>r. \<not> (col_chat_id r = chatID \<and> col_id r \<notin> col_id ` set ?sel)) (messages s)"
  define s' where "s' = s\<lparr>messages := ?rs'\<rparr>"
  have ms': "messages s' = ?rs'" by (simp add: s'_def)
  from select_recent_props[OF ok k, of s chatID] obtain rest where
    m: "mset ?sel + mset rest = mset ?c" and
    len: "length ?sel = min (nat keepCount) (length ?c)" and
    srt: "sorted_wrt (\<lambda>a b. col_created_at b \<le> col_created_at a) ?sel" and
    cut: "\<forall>a \<in> set ?sel. \<forall>b \<in> set rest. col_created_at b \<le> col_created_at a"
    by blast
  have res: "DeleteOldMessages ob None None s chatID keepCount = Inr s'"
  proof (cases "?sel = []")
    case True
    then show ?thesis by (simp add: DeleteOldMessages_def s'_def)
  next
    case False
    then show ?thesis by (simp add: DeleteOldMessages_def Let_def s'_def)
  qed
  have sub: "set ?sel \<subseteq> set ?c"
    using mset_split_sets(1)[OF m] by blast
  have d: "distinct (map col_id (messages s))" using inv by (simp add: store_ok_def)
  have dc: "distinct (map col_id ?c)" using d by (simp add: distinct_map_filter)
  have dcs: "distinct ?c" using dc by (simp add: distinct_map)
  have dapp: "distinct (?sel @ rest)" using dcs by (rule mset_split_sets(2)[OF m])
  have kept: "filter (\<lambda>r. col_chat_id r = chatID) (messages s') = filter (\<lambda>r. r \<in> set ?sel) ?c"
    unfolding ms' filter_kept_chat using kept_rows_by_id[OF dc sub] by simp
  have keptm: "mset (filter (\<lambda>r. r \<in> set ?sel) ?c) = mset ?sel"
  proof -
    have "mset (filter (\<lambda>r. r \<in> set ?sel) ?c) = filter_mset (\<lambda>r. r \<in> set ?sel) (mset ?c)"
      by (simp only: mset_filter)
    then have "mset (filter (\<lambda>r. r \<in> set ?sel) ?c) =
                 filter_mset (\<lambda>r. r \<in> set ?sel) (mset ?sel) + filter_mset (\<lambda>r. r \<in> set ?sel) (mset rest)"
      by (simp only: m[symmetric] filter_union_mset)
    moreover have "filter_mset (\<lambda>r. r \<in> set ?sel) (mset ?sel) = mset ?sel"
      by (simp add: filter_mset_eq_conv)
    moreover have "filter_mset (\<lambda>r. r \<in> set ?sel) (mset rest) = {#}"
    proof -
      have "set ?sel \<inter> set rest = {}"
        using dapp by simp
      then show ?thesis by auto
    qed
    ultimately show ?thesis by simp
  qed
  have c1: "filter (\<lambda>r. col_chat_id r \<noteq> chatID) (messages s') = filter (\<lambda>r. col_chat_id r \<noteq> chatID) (messages s)"
    unfolding ms' by (rule filter_other_chat)
  have c2: "set (messages s') \<subseteq> set (messages s)" unfolding ms' by auto
  have c3: "length (filter (\<lambda>r. col_chat_id r = chatID) (messages s')) = min (nat keepCount) (length ?c)"
  proof -
    have "length (filter (\<lambda>r. col_chat_id r = chatID) (messages s')) =
            size (mset (filter (\<lambda>r. r \<in> set ?sel) ?c))"
      unfolding kept by (simp only: size_mset)
    also have "\<dots> = length ?sel" unfolding keptm by (simp only: size_mset)
    finally show ?thesis using len by simp
  qed
  have c4: "\<forall>a \<in> set (messages s'). \<forall>b \<in> set (messages s) - set (messages s').
              col_chat_id a = chatID \<longrightarrow> col_chat_id b = chatID \<and> col_created_at b \<le> col_created_at a"
  proof (intro ballI impI)
    fix a b assume a: "a \<in> set (messages s')" and b: "b \<in> set (messages s) - set (messages s')"
      and ca: "col_chat_id a = chatID"
    from b have cb: "col_chat_id b = chatID" unfolding ms' by auto
    from a ca have "a \<in> set (filter (\<lambda>r. col_chat_id r = chatID) (messages s'))" by simp
    then have asel: "a \<in> set ?sel" unfolding kept by simp
    from b cb have "b \<in> set ?c" "b \<notin> set (filter (\<lambda>r. col_chat_id r = chatID) (messages s'))" by auto
    then have "b \<in> set ?c" "b \<notin> set ?sel" unfolding kept by auto
    then have "b \<in> set rest" using mset_split_sets(1)[OF m] by blast
    with cut asel cb show "col_chat_id b = chatID \<and> col_created_at b \<le> col_created_at a" by blast
  qed
  have c5: "keepCount = 0 \<longrightarrow> filter (\<lambda>r. col_chat_id r = chatID) (messages s') = []"
    using c3 by auto
  show ?thesis using c5 by (intro exI[of _ s'] conjI res c1 c2 c3 c4)
qed

theorem DeleteOldMessages_keeps_most_recent_witness:
  "order_by_created_at_desc_ok order_by_stable \<and> store_ok example_store \<and> (0::int) \<le> 2 \<and>
   DeleteOldMessages order_by_stable None None example_store ''oc_1'' 2 =
     Inr \<lparr>messages =
            [mk_row 3 ''oc_2'' ''om_3'' ''2024-01-01 00:00:02'',
             mk_row 4 ''oc_1'' ''om_4'' ''2024-01-01 00:00:03'',
             mk_row 5 ''oc_1'' ''om_5'' ''2024-01-01 00:00:04''],
          seq = 5\<rparr>"
proof -
  have k: "(0::int) \<le> 2" by simp
  have run: "DeleteOldMessages order_by_stable None None example_store ''oc_1'' 2 =
     Inr \<lparr>messages =
            [mk_row 3 ''oc_2'' ''om_3'' ''2024-01-01 00:00:02'',
             mk_row 4 ''oc_1'' ''om_4'' ''2024-01-01 00:00:03'',
             mk_row 5 ''oc_1'' ''om_5'' ''2024-01-01 00:00:04''],
          seq = 5\<rparr>"
    by (simp add: DeleteOldMessages_def select_recent_def sql_limit_def order_by_stable_def
          example_store_def mk_row_def)
  show ?thesis
    using DeleteOldMessages_keeps_most_recent[OF order_by_stable_ok store_ok_example_store k, of "''oc_1''"]
      order_by_stable_ok store_ok_example_store k run
    by - (intro conjI; assumption)
qed

text \<open>
  C2, as stated, fails: of two messages of a conversation with the same \<open>created_at\<close>, the
  stable ordering keeps the one inserted first, where the rule with the sequence number as
  tie-break keeps the one inserted last.
\<close>

theorem DeleteOldMessages_tie_counterexample:
  "DeleteOldMessages order_by_stable None None tie_store ''oc_1'' 1
     \<noteq> Inr (trimToRecent_spec tie_store ''oc_1'' 1)"
  by (simp add: DeleteOldMessages_def trimToRecent_spec_def select_recent_def sql_limit_def
        order_by_stable_def tie_store_def mk_row_def)

text \<open>
  Two admissible orderings and one table: which of the two messages survives is the
  ordering's choice, not the program's.
\<close>

lemma order_by_stable_rev_ok: "order_by_created_at_desc_ok order_by_stable_rev"
  using order_by_stable_ok
  by (simp add: order_by_created_at_desc_ok_def order_by_stable_rev_def)

lemma DeleteOldMessages_tie_depends_on_engine:
  "DeleteOldMessages order_by_stable None None tie_store ''oc_1'' 1 =
     Inr \<lparr>messages = [mk_row 1 ''oc_1'' ''om_1'' ''2024-01-01 00:00:01''], seq = 2\<rparr> \<and>
   DeleteOldMessages order_by_stable_rev None None tie_store ''oc_1'' 1 =
     Inr \<lparr>messages = [mk_row 2 ''oc_1'' ''om_2'' ''2024-01-01 00:00:01''], seq = 2\<rparr>"
  by (simp add: DeleteOldMessages_def select_recent_def sql_limit_def order_by_stable_def
        order_by_stable_rev_def tie_store_def mk_row_def)

section \<open>The tracker\<close>

text \<open>
  C9. A service just constructed tracks nothing; after any sequence of updates (from any
  state) \<open>GetRecentChat\<close> returns the conversation id and kind of the last update.
\<close>

theorem tracker_last_write_wins:
  "GetRecentChat NewLarkService = None \<and>
   GetRecentChat (foldl (\<lambda>s (c, k). UpdateRecentChat c k s) s0 (ups @ [(chatID, chatType)]))
     = Some \<lparr>recent_ChatID = chatID, recent_ChatType = chatType\<rparr>"
  by (simp add: GetRecentChat_def NewLarkService_def UpdateRecentChat_def)

theorem tracker_last_write_wins_witness:
  "GetRecentChat NewLarkService = None \<and>
   GetRecentChat (UpdateRecentChat ''B'' ''p2p'' (UpdateRecentChat ''A'' ''group'' NewLarkService))
     = Some \<lparr>recent_ChatID = ''B'', recent_ChatType = ''p2p''\<rparr>"
  using tracker_last_write_wins[of NewLarkService "[(''A'', ''group'')]" "''B''" "''p2p''"]
  by simp

section \<open>Listing the conversations\<close>

lemma upt_Suc_shift: "map f [0..<Suc n] = f 0 # map (\<lambda>i. f (Suc i)) [0..<n]"
  by (simp only: upt_conv_Cons[of 0 "Suc n"] zero_less_Suc if_True list.map map_Suc_upt[symmetric] map_map o_def)

lemma fetched_cases:
  assumes "fetched ret = Some d"
  obtains r where "ret = (Some r, None)" "list_Code r = 0" "list_Data r = Some d"
  using assms by (cases ret) (auto simp: fetched_def split: if_splits option.splits)

lemma GetChatList_loop_more:
  assumes f: "fetched (im_chat_list P (length (calls s)) (list_request tok)) = Some d"
    and a: "announces_next d"
  shows "GetChatList_loop P s acc tok =
           GetChatList_loop P (s\<lparr>calls := calls s @ [ListCall (list_request tok)]\<rparr>)
             (acc @ page_ids (im_chat_list P (length (calls s)) (list_request tok)))
             (next_token (im_chat_list P (length (calls s)) (list_request tok)))"
proof -
  from f obtain r where r: "im_chat_list P (length (calls s)) (list_request tok) = (Some r, None)"
    "list_Code r = 0" "list_Data r = Some d" by (rule fetched_cases)
  from a obtain t where t: "HasMore d = Some True" "PageToken d = Some t"
    by (auto simp: announces_next_def)
  show ?thesis
    by (subst GetChatList_loop.simps) (simp add: r t page_ids_def fetched_def next_token_def)
qed

lemma GetChatList_loop_last:
  assumes f: "fetched (im_chat_list P (length (calls s)) (list_request tok)) = Some d"
    and a: "\<not> announces_next d"
  shows "GetChatList_loop P s acc tok =
           Some (Returned (Inr (acc @ page_ids (im_chat_list P (length (calls s)) (list_request tok)))),
                 s\<lparr>calls := calls s @ [ListCall (list_request tok)]\<rparr>)"
proof -
  from f obtain r where r: "im_chat_list P (length (calls s)) (list_request tok) = (Some r, None)"
    "list_Code r = 0" "list_Data r = Some d" by (rule fetched_cases)
  show ?thesis using a
    by (subst GetChatList_loop.simps)
       (auto simp add: r page_ids_def fetched_def announces_next_def split: option.splits)
qed

lemma GetChatList_loop_failed:
  assumes f: "fetch_failed (im_chat_list P (length (calls s)) (list_request tok))"
  shows "\<exists>e. GetChatList_loop P s acc tok =
           Some (Returned (Inl e), s\<lparr>calls := calls s @ [ListCall (list_request tok)]\<rparr>)"
  using f
  by (subst GetChatList_loop.simps)
     (cases "im_chat_list P (length (calls s)) (list_request tok)",
      auto simp add: fetch_failed_def split: option.splits)

lemma GetChatList_loop_pages:
  assumes "\<forall>i<n. \<exists>d. fetched (fetch_at P (length (calls s)) tok i) = Some d \<and> announces_next d"
  shows "(\<forall>d. fetched (fetch_at P (length (calls s)) tok n) = Some d \<and> \<not> announces_next d \<longrightarrow>
            (\<exists>s'. GetChatList_loop P s acc tok =
                    Some (Returned (Inr (acc @ concat (map (\<lambda>i. page_ids (fetch_at P (length (calls s)) tok i))
                                                        [0..<Suc n]))), s') \<and>
                  length (calls s') = length (calls s) + Suc n)) \<and>
         (fetch_failed (fetch_at P (length (calls s)) tok n) \<longrightarrow>
            (\<exists>e s'. GetChatList_loop P s acc tok = Some (Returned (Inl e), s') \<and>
                    length (calls s') = length (calls s) + Suc n))"
  using assms
proof (induction n arbitrary: s acc tok)
  case 0
  show ?case
    using GetChatList_loop_last[of P s tok _ acc] GetChatList_loop_failed[of P s tok acc]
    by fastforce
next
  case (Suc n)
  let ?c = "length (calls s)"
  let ?ans = "im_chat_list P ?c (list_request tok)"
  let ?s1 = "s\<lparr>calls := calls s @ [ListCall (list_request tok)]\<rparr>"
  from Suc.prems have "\<exists>d. fetched (fetch_at P ?c tok 0) = Some d \<and> announces_next d" by blast
  then obtain d0 where d0: "fetched ?ans = Some d0" "announces_next d0" by auto
  have step: "GetChatList_loop P s acc tok = GetChatList_loop P ?s1 (acc @ page_ids ?ans) (next_token ?ans)"
    for acc by (rule GetChatList_loop_more[OF d0])
  have len1: "length (calls ?s1) = Suc ?c" by simp
  have shift: "fetch_at P ?c tok (Suc i) = fetch_at P (length (calls ?s1)) (next_token ?ans) i" for i
    by simp
  have pre: "\<forall>i<n. \<exists>d. fetched (fetch_at P (length (calls ?s1)) (next_token ?ans) i) = Some d \<and> announces_next d"
  proof (intro allI impI)
    fix i assume "i < n"
    then have "Suc i < Suc n" by simp
    with Suc.prems have "\<exists>d. fetched (fetch_at P ?c tok (Suc i)) = Some d \<and> announces_next d" by blast
    then show "\<exists>d. fetched (fetch_at P (length (calls ?s1)) (next_token ?ans) i) = Some d \<and> announces_next d"
      unfolding shift .
  qed
  have cat: "acc @ concat (map (\<lambda>i. page_ids (fetch_at P ?c tok i)) [0..<Suc (Suc n)]) =
             (acc @ page_ids ?ans) @ concat (map (\<lambda>i. page_ids (fetch_at P (length (calls ?s1)) (next_token ?ans) i)) [0..<Suc n])"
    unfolding upt_Suc_shift[of "\<lambda>i. page_ids (fetch_at P ?c tok i)" "Suc n"] shift by simp
  from Suc.IH[OF pre, of "acc @ page_ids ?ans"]
  show ?case unfolding step cat shift[symmetric] len1 by simp
qed

lemma GetChatList_example_platform:
  "GetChatList example_platform NewLarkService =
     Some (Returned (Inr [''oc_1'', ''oc_2'', ''oc_3'']),
           \<lparr>recentChat = None,
            calls = [ListCall (list_request []), ListCall (list_request ''page2'')]\<rparr>)"
  unfolding GetChatList_def
  apply (subst GetChatList_loop.simps)
  apply (simp add: example_platform_def NewLarkService_def list_request_def page_one_def)
  apply (subst GetChatList_loop.simps)
  apply (simp add: list_request_def page_two_def item_ids_def List.map_filter_def)
  done

lemma GetChatList_broken_platform:
  "GetChatList broken_platform NewLarkService =
     Some (Returned (Inl (Wrapf ListFailed (External ''timeout''))),
           \<lparr>recentChat = None,
            calls = [ListCall (list_request []), ListCall (list_request ''page2'')]\<rparr>)"
  unfolding GetChatList_def
  apply (subst GetChatList_loop.simps)
  apply (simp add: broken_platform_def example_platform_def NewLarkService_def list_request_def
           page_one_def)
  apply (subst GetChatList_loop.simps)
  apply (simp add: list_request_def)
  done

lemma GetChatList_empty_platform:
  "GetChatList empty_platform NewLarkService =
     Some (Returned (Inr []), \<lparr>recentChat = None, calls = [ListCall (list_request [])]\<rparr>)"
  unfolding GetChatList_def
  apply (subst GetChatList_loop.simps)
  apply (simp add: empty_platform_def example_platform_def NewLarkService_def list_request_def
           item_ids_def List.map_filter_def)
  done

text \<open>
  C7. Let the first \<open>n\<close> fetches of a listing run each deliver a page that announces a
  further one. If the next fetch delivers a page that announces none, \<open>GetChatList\<close>
  returns, after \<open>n + 1\<close> calls, the ids of all pages in order. If the next fetch fails
  (transport error or unsuccessful response), \<open>GetChatList\<close> returns an error and no list.
\<close>

theorem GetChatList_pages:
  assumes "\<forall>i<n. \<exists>d. fetched (fetch_at P (length (calls s)) [] i) = Some d \<and> announces_next d"
  shows "(\<forall>d. fetched (fetch_at P (length (calls s)) [] n) = Some d \<and> \<not> announces_next d \<longrightarrow>
            (\<exists>s'. GetChatList P s =
                    Some (Returned (Inr (concat (map (\<lambda>i. page_ids (fetch_at P (length (calls s)) [] i))
                                                  [0..<Suc n]))), s') \<and>
                  length (calls s') = length (calls s) + Suc n)) \<and>
         (fetch_failed (fetch_at P (length (calls s)) [] n) \<longrightarrow>
            (\<exists>e s'. GetChatList P s = Some (Returned (Inl e), s') \<and>
                    length (calls s') = length (calls s) + Suc n))"
  using GetChatList_loop_pages[OF assms, of "[]"] by (simp add: GetChatList_def)

theorem GetChatList_pages_witness:
  "fetched (fetch_at example_platform 0 [] 0) = Some page_one \<and> announces_next page_one \<and>
   fetched (fetch_at example_platform 0 [] 1) = Some page_two \<and> \<not> announces_next page_two \<and>
   GetChatList example_platform NewLarkService =
     Some (Returned (Inr [''oc_1'', ''oc_2'', ''oc_3'']),
           \<lparr>recentChat = None,
            calls = [ListCall (list_request []), ListCall (list_request ''page2'')]\<rparr>) \<and>
   fetched (fetch_at broken_platform 0 [] 0) = Some page_one \<and>
   fetch_failed (fetch_at broken_platform 0 [] 1) \<and>
   GetChatList broken_platform NewLarkService =
     Some (Returned (Inl (Wrapf ListFailed (External ''timeout''))),
           \<lparr>recentChat = None,
            calls = [ListCall (list_request []), ListCall (list_request ''page2'')]\<rparr>)"
proof -
  have p1: "fetched (fetch_at example_platform 0 [] 0) = Some page_one"
    by (simp add: fetched_def example_platform_def list_request_def)
  have a1: "announces_next page_one"
    by (simp add: announces_next_def page_one_def)
  have p2: "fetched (fetch_at example_platform 0 [] 1) = Some page_two"
    by (simp add: fetched_def example_platform_def list_request_def next_token_def page_one_def)
  have a2: "\<not> announces_next page_two"
    by (simp add: announces_next_def page_two_def)
  have q1: "fetched (fetch_at broken_platform 0 [] 0) = Some page_one"
    by (simp add: fetched_def broken_platform_def example_platform_def list_request_def)
  have q2: "fetch_failed (fetch_at broken_platform 0 [] 1)"
    by (simp add: fetch_failed_def broken_platform_def example_platform_def list_request_def
          next_token_def page_one_def)
  have h: "\<forall>i<1. \<exists>d. fetched (fetch_at example_platform (length (calls NewLarkService)) [] i) = Some d \<and>
                       announces_next d"
    using p1 a1 by (simp add: NewLarkService_def)
  have hb: "\<forall>i<1. \<exists>d. fetched (fetch_at broken_platform (length (calls NewLarkService)) [] i) = Some d \<and>
                       announces_next d"
    using q1 a1 by (simp add: NewLarkService_def)
  have run: "GetChatList example_platform NewLarkService =
     Some (Returned (Inr [''oc_1'', ''oc_2'', ''oc_3'']),
           \<lparr>recentChat = None,
            calls = [ListCall (list_request []), ListCall (list_request ''page2'')]\<rparr>)"
    by (rule GetChatList_example_platform)
  have runb: "GetChatList broken_platform NewLarkService =
     Some (Returned (Inl (Wrapf ListFailed (External ''timeout''))),
           \<lparr>recentChat = None,
            calls = [ListCall (list_request []), ListCall (list_request ''page2'')]\<rparr>)"
    by (rule GetChatList_broken_platform)
  show ?thesis
    using GetChatList_pages[OF h] GetChatList_pages[OF hb] p1 a1 p2 a2 run q1 q2 runb
    by - (intro conjI; assumption)
qed

section \<open>Broadcast\<close>

lemma SendTextMessage_chat_id:
  assumes "create_answer_ok (im_message_create P (length (calls s)) (chat_text_request content c))"
  shows "\<exists>r. SendTextMessage P s c ''chat_id'' content =
               (Returned r, s\<lparr>calls := calls s @ [CreateCall (chat_text_request content c)]\<rparr>) \<and>
             (r \<noteq> None) = send_fails (im_message_create P (length (calls s)) (chat_text_request content c))"
proof -
  obtain resp err where ret: "im_message_create P (length (calls s)) (chat_text_request content c) = (resp, err)"
    by (cases "im_message_create P (length (calls s)) (chat_text_request content c)")
  have req: "\<lparr>receive_id_type = ''chat_id'', create_msg_type = ''text'',
               receive_id = c, create_content = [content]\<rparr> = chat_text_request content c"
    by (simp add: chat_text_request_def)
  show ?thesis using assms ret
    by (auto simp: SendTextMessage_def Let_def req create_answer_ok_def send_fails_def
             split: option.splits)
qed

lemma send_loop_aggregate:
  assumes wf: "\<forall>i req. create_answer_ok (im_message_create P i req)"
  shows "\<exists>sc fc new s'.
           send_loop P content cs sc0 fc0 res0 s = (Returned (sc, fc, res0 @ new), s') \<and>
           map entry_chat_id new = cs \<and>
           sc = sc0 + int (length (filter (\<lambda>e. entry_status e = ''success'') new)) \<and>
           fc = fc0 + int (length (filter (\<lambda>e. entry_status e = ''failed'') new)) \<and>
           list_all entry_ok new \<and>
           (\<forall>i < length cs. (entry_status (new ! i) = ''failed'') =
               send_fails (im_message_create P (length (calls s) + i) (chat_text_request content (cs ! i)))) \<and>
           calls s' = calls s @ map (\<lambda>c. CreateCall (chat_text_request content c)) cs"
proof (induction cs arbitrary: sc0 fc0 res0 s)
  case Nil
  show ?case by simp
next
  case (Cons c cs)
  let ?s1 = "s\<lparr>calls := calls s @ [CreateCall (chat_text_request content c)]\<rparr>"
  let ?ans = "im_message_create P (length (calls s)) (chat_text_request content c)"
  from wf have "create_answer_ok ?ans" by blast
  from SendTextMessage_chat_id[OF this] obtain r where
    send: "SendTextMessage P s c ''chat_id'' content = (Returned r, ?s1)" and
    fails: "(r \<noteq> None) = send_fails ?ans" by blast
  show ?case
  proof (cases r)
    case None
    let ?e = "\<lparr>entry_chat_id = c, entry_status = ''success'', entry_error = None\<rparr>"
    from Cons.IH[of "sc0 + 1" fc0 "res0 @ [?e]" ?s1] obtain sc fc new s' where
      ih: "send_loop P content cs (sc0 + 1) fc0 (res0 @ [?e]) ?s1 = (Returned (sc, fc, (res0 @ [?e]) @ new), s')"
        "map entry_chat_id new = cs"
        "sc = sc0 + 1 + int (length (filter (\<lambda>e. entry_status e = ''success'') new))"
        "fc = fc0 + int (length (filter (\<lambda>e. entry_status e = ''failed'') new))"
        "list_all entry_ok new"
        "\<forall>i < length cs. (entry_status (new ! i) = ''failed'') =
               send_fails (im_message_create P (length (calls ?s1) + i) (chat_text_request content (cs ! i)))"
        "calls s' = calls ?s1 @ map (\<lambda>c. CreateCall (chat_text_request content c)) cs"
      by blast
    have nth: "\<forall>i < length (c # cs). (entry_status ((?e # new) ! i) = ''failed'') =
               send_fails (im_message_create P (length (calls s) + i) (chat_text_request content ((c # cs) ! i)))"
    proof (intro allI impI)
      fix i assume "i < length (c # cs)"
      then show "(entry_status ((?e # new) ! i) = ''failed'') =
               send_fails (im_message_create P (length (calls s) + i) (chat_text_request content ((c # cs) ! i)))"
        using ih(6) fails None by (cases i) auto
    qed
    have eok: "entry_ok ?e" by (simp add: entry_ok_def)
    show ?thesis
      apply (rule exI[of _ sc], rule exI[of _ fc], rule exI[of _ "?e # new"], rule exI[of _ s'])
      using ih(1-5,7) send None nth eok by simp
  next
    case (Some err)
    let ?e = "\<lparr>entry_chat_id = c, entry_status = ''failed'', entry_error = Some err\<rparr>"
    from Cons.IH[of sc0 "fc0 + 1" "res0 @ [?e]" ?s1] obtain sc fc new s' where
      ih: "send_loop P content cs sc0 (fc0 + 1) (res0 @ [?e]) ?s1 = (Returned (sc, fc, (res0 @ [?e]) @ new), s')"
        "map entry_chat_id new = cs"
        "sc = sc0 + int (length (filter (\<lambda>e. entry_status e = ''success'') new))"
        "fc = fc0 + 1 + int (length (filter (\<lambda>e. entry_status e = ''failed'') new))"
        "list_all entry_ok new"
        "\<forall>i < length cs. (entry_status (new ! i) = ''failed'') =
               send_fails (im_message_create P (length (calls ?s1) + i) (chat_text_request content (cs ! i)))"
        "calls s' = calls ?s1 @ map (\<lambda>c. CreateCall (chat_text_request content c)) cs"
      by blast
    have nth: "\<forall>i < length (c # cs). (entry_status ((?e # new) ! i) = ''failed'') =
               send_fails (im_message_create P (length (calls s) + i) (chat_text_request content ((c # cs) ! i)))"
    proof (intro allI impI)
      fix i assume "i < length (c # cs)"
      then show "(entry_status ((?e # new) ! i) = ''failed'') =
               send_fails (im_message_create P (length (calls s) + i) (chat_text_request content ((c # cs) ! i)))"
        using ih(6) fails Some by (cases i) auto
    qed
    have eok: "entry_ok ?e" by (simp add: entry_ok_def)
    show ?thesis
      apply (rule exI[of _ sc], rule exI[of _ fc], rule exI[of _ "?e # new"], rule exI[of _ s'])
      using ih(1-5,7) send Some nth eok by simp
  qed
qed

text \<open>
  C6. Let \<open>GetChatList\<close> return the conversations \<open>chatIDs\<close>, and let the platform's answers
  to \<open>create\<close> be well formed. Then \<open>SendMessageToAllChats\<close> returns a summary, never an
  error: \<open>total\<close> is the number of conversations, \<open>success + failed = total\<close>, the records
  are one per conversation in listing order, each failed with an error or success without,
  the \<open>i\<close>-th failed exactly when the \<open>i\<close>-th send failed, the counters count the records
  of each status, and the calls made are one \<open>create\<close> of the body per conversation in
  listing order. With no conversation the summary is all zero and empty, and no call is made.
\<close>

theorem SendMessageToAllChats_aggregate:
  assumes list: "GetChatList P s = Some (Returned (Inr chatIDs), s1)"
    and wf: "\<forall>i req. create_answer_ok (im_message_create P i req)"
  shows "\<exists>sm s2.
           SendMessageToAllChats P s content = Some (Returned (Inr sm), s2) \<and>
           total sm = int (length chatIDs) \<and>
           success sm + failed sm = total sm \<and>
           map entry_chat_id (results sm) = chatIDs \<and>
           success sm = int (length (filter (\<lambda>e. entry_status e = ''success'') (results sm))) \<and>
           failed sm = int (length (filter (\<lambda>e. entry_status e = ''failed'') (results sm))) \<and>
           list_all entry_ok (results sm) \<and>
           (\<forall>i < length chatIDs.
              (entry_status (results sm ! i) = ''failed'') =
                send_fails (im_message_create P (length (calls s1) + i)
                              (chat_text_request content (chatIDs ! i)))) \<and>
           calls s2 = calls s1 @ map (\<lambda>c. CreateCall (chat_text_request content c)) chatIDs \<and>
           (chatIDs = [] \<longrightarrow> sm = \<lparr>total = 0, success = 0, failed = 0, results = []\<rparr> \<and> s2 = s1)"
proof (cases "chatIDs = []")
  case True
  show ?thesis
    apply (rule exI[of _ "\<lparr>total = 0, success = 0, failed = 0, results = []\<rparr>"], rule exI[of _ s1])
    using list True by (simp add: SendMessageToAllChats_def)
next
  case False
  from send_loop_aggregate[OF wf, of content chatIDs 0 0 "[]" s1] obtain sc fc new s2 where
    loop: "send_loop P content chatIDs 0 0 [] s1 = (Returned (sc, fc, new), s2)" and
    ids: "map entry_chat_id new = chatIDs" and
    sc: "sc = int (length (filter (\<lambda>e. entry_status e = ''success'') new))" and
    fc: "fc = int (length (filter (\<lambda>e. entry_status e = ''failed'') new))" and
    ok: "list_all entry_ok new" and
    nth: "\<forall>i < length chatIDs. (entry_status (new ! i) = ''failed'') =
               send_fails (im_message_create P (length (calls s1) + i) (chat_text_request content (chatIDs ! i)))" and
    tr: "calls s2 = calls s1 @ map (\<lambda>c. CreateCall (chat_text_request content c)) chatIDs"
    by auto
  have len: "length new = length chatIDs" using ids by (metis length_map)
  have part: "length (filter (\<lambda>e. entry_status e = ''success'') new) +
              length (filter (\<lambda>e. entry_status e = ''failed'') new) = length new"
    using ok by (induction new) (auto simp: entry_ok_def)
  have sum: "sc + fc = int (length chatIDs)" using sc fc part len by simp
  show ?thesis
    apply (rule exI[of _ "\<lparr>total = int (length chatIDs), success = sc, failed = fc, results = new\<rparr>"],
           rule exI[of _ s2])
    using list False loop ids sc fc ok nth tr sum by (simp add: SendMessageToAllChats_def)
qed

theorem SendMessageToAllChats_aggregate_witness:
  "GetChatList example_platform NewLarkService =
     Some (Returned (Inr [''oc_1'', ''oc_2'', ''oc_3'']),
           \<lparr>recentChat = None,
            calls = [ListCall (list_request []), ListCall (list_request ''page2'')]\<rparr>) \<and>
   SendMessageToAllChats example_platform NewLarkService ''helloworld'' =
     Some (Returned (Inr \<lparr>total = 3, success = 2, failed = 1,
                          results =
                            [\<lparr>entry_chat_id = ''oc_1'', entry_status = ''success'', entry_error = None\<rparr>,
                             \<lparr>entry_chat_id = ''oc_2'', entry_status = ''failed'',
                              entry_error = Some (Wrapf SendFailed (External ''timeout''))\<rparr>,
                             \<lparr>entry_chat_id = ''oc_3'', entry_status = ''success'', entry_error = None\<rparr>]\<rparr>),
           \<lparr>recentChat = None,
            calls = [ListCall (list_request []), ListCall (list_request ''page2''),
                     CreateCall (chat_text_request ''helloworld'' ''oc_1''),
                     CreateCall (chat_text_request ''helloworld'' ''oc_2''),
                     CreateCall (chat_text_request ''helloworld'' ''oc_3'')]\<rparr>) \<and>
   GetChatList empty_platform NewLarkService =
     Some (Returned (Inr []), \<lparr>recentChat = None, calls = [ListCall (list_request [])]\<rparr>) \<and>
   SendMessageToAllChats empty_platform NewLarkService ''helloworld'' =
     Some (Returned (Inr \<lparr>total = 0, success = 0, failed = 0, results = []\<rparr>),
           \<lparr>recentChat = None, calls = [ListCall (list_request [])]\<rparr>)"
proof -
  have l1: "GetChatList example_platform NewLarkService =
     Some (Returned (Inr [''oc_1'', ''oc_2'', ''oc_3'']),
           \<lparr>recentChat = None,
            calls = [ListCall (list_request []), ListCall (list_request ''page2'')]\<rparr>)"
    by (rule GetChatList_example_platform)
  have w1: "\<forall>i req. create_answer_ok (im_message_create example_platform i req)"
    by (simp add: create_answer_ok_def example_platform_def ok_resp_def Success_def)
  have r1: "SendMessageToAllChats example_platform NewLarkService ''helloworld'' =
     Some (Returned (Inr \<lparr>total = 3, success = 2, failed = 1,
                          results =
                            [\<lparr>entry_chat_id = ''oc_1'', entry_status = ''success'', entry_error = None\<rparr>,
                             \<lparr>entry_chat_id = ''oc_2'', entry_status = ''failed'',
                              entry_error = Some (Wrapf SendFailed (External ''timeout''))\<rparr>,
                             \<lparr>entry_chat_id = ''oc_3'', entry_status = ''success'', entry_error = None\<rparr>]\<rparr>),
           \<lparr>recentChat = None,
            calls = [ListCall (list_request []), ListCall (list_request ''page2''),
                     CreateCall (chat_text_request ''helloworld'' ''oc_1''),
                     CreateCall (chat_text_request ''helloworld'' ''oc_2''),
                     CreateCall (chat_text_request ''helloworld'' ''oc_3'')]\<rparr>)"
    by (simp only: SendMessageToAllChats_def l1)
       (simp add: SendTextMessage_def Let_def example_platform_def ok_resp_def Success_def
          chat_text_request_def)
  have l2: "GetChatList empty_platform NewLarkService =
     Some (Returned (Inr []), \<lparr>recentChat = None, calls = [ListCall (list_request [])]\<rparr>)"
    by (rule GetChatList_empty_platform)
  have w2: "\<forall>i req. create_answer_ok (im_message_create empty_platform i req)"
    by (simp add: create_answer_ok_def empty_platform_def example_platform_def ok_resp_def Success_def)
  have r2: "SendMessageToAllChats empty_platform NewLarkService ''helloworld'' =
     Some (Returned (Inr \<lparr>total = 0, success = 0, failed = 0, results = []\<rparr>),
           \<lparr>recentChat = None, calls = [ListCall (list_request [])]\<rparr>)"
    by (simp only: SendMessageToAllChats_def l2) simp
  show ?thesis
    using SendMessageToAllChats_aggregate[OF l1 w1, of "''helloworld''"]
      SendMessageToAllChats_aggregate[OF l2 w2, of "''helloworld''"] l1 r1 l2 r2
    by - (intro conjI; assumption)
qed

section \<open>The event handler\<close>

text \<open>
  C1 does not hold of the code. The handler guards the reads of the ids while it tracks and
  saves, but reads \<open>*Content\<close>, \<open>*MessageType\<close> and \<open>*ChatType\<close> unguarded afterwards: for
  an event that has every field but the content it panics at \<open>json.Unmarshal\<close>, whatever the
  platform, the clock, the store and the decoder are, instead of returning nil.
\<close>

theorem OnP2MessageReceiveV1_absent_content_panics:
  "fst (OnP2MessageReceiveV1 P enc now fault unmarshal ev_no_content w) = Panic"
  by (simp add: OnP2MessageReceiveV1_def ev_no_content_def track_recent_def parse_content_def Let_def)

text \<open>
  The absent fields that end in a panic, each before any call is made; and the events for
  which the handler does return nil: all five fields present, and the platform answering
  with a response.
\<close>

lemma OnP2MessageReceiveV1_absent_field_panics:
  "(em_Content ev = None \<longrightarrow>
      fst (OnP2MessageReceiveV1 P enc now fault unmarshal ev w) = Panic \<and>
      calls (larkService (snd (OnP2MessageReceiveV1 P enc now fault unmarshal ev w))) =
        calls (larkService w)) \<and>
   (em_ChatType ev = None \<longrightarrow>
      fst (OnP2MessageReceiveV1 P enc now fault unmarshal ev w) = Panic \<and>
      calls (larkService (snd (OnP2MessageReceiveV1 P enc now fault unmarshal ev w))) =
        calls (larkService w)) \<and>
   (em_MessageType ev = None \<and> (\<exists>c m. em_Content ev = Some c \<and> unmarshal c = Some m) \<longrightarrow>
      fst (OnP2MessageReceiveV1 P enc now fault unmarshal ev w) = Panic \<and>
      calls (larkService (snd (OnP2MessageReceiveV1 P enc now fault unmarshal ev w))) =
        calls (larkService w)) \<and>
   (em_ChatId ev = None \<and> em_ChatType ev = Some ''p2p'' \<longrightarrow>
      fst (OnP2MessageReceiveV1 P enc now fault unmarshal ev w) = Panic \<and>
      calls (larkService (snd (OnP2MessageReceiveV1 P enc now fault unmarshal ev w))) =
        calls (larkService w)) \<and>
   (em_MessageId ev = None \<and> (\<exists>k. em_ChatType ev = Some k \<and> k \<noteq> ''p2p'') \<longrightarrow>
      fst (OnP2MessageReceiveV1 P enc now fault unmarshal ev w) = Panic \<and>
      calls (larkService (snd (OnP2MessageReceiveV1 P enc now fault unmarshal ev w))) =
        calls (larkService w))"
  by (auto simp: OnP2MessageReceiveV1_def track_recent_def parse_content_def send_reply_def Let_def
                 UpdateRecentChat_def
           split: option.splits outcome.splits prod.splits)

lemma OnP2MessageReceiveV1_returns_nil:
  assumes "em_MessageId ev = Some messageId" and "em_ChatId ev = Some chatId"
    and "em_MessageType ev = Some messageType" and "em_ChatType ev = Some chatType"
    and "em_Content ev = Some c"
    and "\<forall>i req. fst (im_message_create P i req) \<noteq> None"
    and "\<forall>i req. fst (im_message_reply P i req) \<noteq> None"
  shows "fst (OnP2MessageReceiveV1 P enc now fault unmarshal ev w) = Returned None"
proof -
  have c: "fst (im_message_create P i req) \<noteq> None" for i req using assms(6) by blast
  have r: "fst (im_message_reply P i req) \<noteq> None" for i req using assms(7) by blast
  have send: "fst (send_reply P ev content s) = Returned None" for content s
    using assms(1,2,4) by (auto simp: send_reply_def Let_def c r split: option.splits)
  have "\<exists>m. parse_content unmarshal ev = Returned m"
    using assms(3,5) by (cases "unmarshal c") (simp_all add: parse_content_def)
  then obtain m where m: "parse_content unmarshal ev = Returned m" by blast
  obtain s1 where s1: "track_recent ev (larkService w) = Returned s1"
    using assms(2,4) by (auto simp: track_recent_def)
  show ?thesis
    using send[of "reply_lines (map_text m)" s1]
    by (auto simp: OnP2MessageReceiveV1_def m s1 Let_def split: prod.splits)
qed

text \<open>
  The steps of the handler on an event that reaches the send: tracking leaves the calls
  alone, the parse yields the map read for the text, the send appends its one call.
\<close>

lemma track_recent_calls:
  "track_recent ev s = Returned s1 \<Longrightarrow> calls s1 = calls s"
  by (auto simp: track_recent_def UpdateRecentChat_def split: option.splits)

lemma track_recent_returns:
  "em_ChatType ev = Some chatType \<Longrightarrow> \<exists>s1. track_recent ev s = Returned s1"
  by (auto simp: track_recent_def split: option.splits)

lemma parse_content_text:
  assumes "em_Content ev = Some c" and "unmarshal c = None \<or> em_MessageType ev \<noteq> None"
  shows "parse_content unmarshal ev =
           Returned (if unmarshal c = None \<or> em_MessageType ev \<noteq> Some ''text''
                     then [''text'' \<mapsto> fallback_notice]
                     else (case unmarshal c of None \<Rightarrow> Map.empty | Some m \<Rightarrow> m))"
  using assms by (auto simp: parse_content_def split: option.splits)

lemma send_reply_calls:
  assumes "em_ChatType ev = Some chatType"
    and "if chatType = ''p2p'' then em_ChatId ev = Some target else em_MessageId ev = Some target"
  shows "calls (snd (send_reply P ev content s)) =
           calls s @
           [if chatType = ''p2p''
            then CreateCall \<lparr>receive_id_type = ''chat_id'', create_msg_type = ''text'',
                            receive_id = target, create_content = content\<rparr>
            else ReplyCall \<lparr>reply_message_id = target, reply_msg_type = ''text'',
                           reply_content = content\<rparr>]"
  using assms by (auto simp: send_reply_def Let_def split: option.splits if_splits)

lemma OnP2MessageReceiveV1_calls:
  assumes ct: "em_ChatType ev = Some chatType" and c: "em_Content ev = Some c"
    and mt: "unmarshal c = None \<or> em_MessageType ev \<noteq> None"
    and addr: "if chatType = ''p2p'' then em_ChatId ev = Some target
               else em_MessageId ev = Some target"
  shows "calls (larkService (snd (OnP2MessageReceiveV1 P enc now fault unmarshal ev w))) =
           calls (larkService w) @
           [if chatType = ''p2p''
            then CreateCall \<lparr>receive_id_type = ''chat_id'', create_msg_type = ''text'',
                            receive_id = target,
                            create_content = reply_lines
                              (if unmarshal c = None \<or> em_MessageType ev \<noteq> Some ''text''
                               then fallback_notice
                               else case unmarshal c of None \<Rightarrow> [] | Some m \<Rightarrow> map_text m)\<rparr>
            else ReplyCall \<lparr>reply_message_id = target, reply_msg_type = ''text'',
                           reply_content = reply_lines
                              (if unmarshal c = None \<or> em_MessageType ev \<noteq> Some ''text''
                               then fallback_notice
                               else case unmarshal c of None \<Rightarrow> [] | Some m \<Rightarrow> map_text m)\<rparr>]"
proof -
  from track_recent_returns[OF ct] obtain s1 where s1: "track_recent ev (larkService w) = Returned s1"
    by blast
  have cs: "calls s1 = calls (larkService w)" using s1 by (rule track_recent_calls)
  let ?m = "if unmarshal c = None \<or> em_MessageType ev \<noteq> Some ''text''
            then [''text'' \<mapsto> fallback_notice]
            else (case unmarshal c of None \<Rightarrow> Map.empty | Some m \<Rightarrow> m)"
  have p: "parse_content unmarshal ev = Returned ?m" using c mt by (rule parse_content_text)
  have t: "map_text ?m = (if unmarshal c = None \<or> em_MessageType ev \<noteq> Some ''text''
                          then fallback_notice
                          else case unmarshal c of None \<Rightarrow> [] | Some m \<Rightarrow> map_text m)"
    by (auto simp: map_text_def split: option.splits)
  have "calls (larkService (snd (OnP2MessageReceiveV1 P enc now fault unmarshal ev w))) =
          calls (snd (send_reply P ev (reply_lines (map_text ?m)) s1))"
    by (simp add: OnP2MessageReceiveV1_def s1 p Let_def split: prod.splits)
  also have "\<dots> = calls s1 @
           [if chatType = ''p2p''
            then CreateCall \<lparr>receive_id_type = ''chat_id'', create_msg_type = ''text'',
                            receive_id = target, create_content = reply_lines (map_text ?m)\<rparr>
            else ReplyCall \<lparr>reply_message_id = target, reply_msg_type = ''text'',
                           reply_content = reply_lines (map_text ?m)\<rparr>]"
    using ct addr by (rule send_reply_calls)
  finally show ?thesis unfolding cs t .
qed

text \<open>
  C5 does not hold of the code, by the slip of C1: an event of kind \<open>p2p\<close> that has its
  conversation id and no content gets no \<open>create\<close> call. The handler panics at
  \<open>json.Unmarshal\<close> before it builds the request, and the client has been called no more
  than before.
\<close>

theorem OnP2MessageReceiveV1_p2p_absent_content_no_call:
  "em_ChatType ev_no_content = Some ''p2p'' \<and> em_ChatId ev_no_content = Some ''oc_1'' \<and>
   fst (OnP2MessageReceiveV1 P enc now fault unmarshal ev_no_content w) = Panic \<and>
   calls (larkService (snd (OnP2MessageReceiveV1 P enc now fault unmarshal ev_no_content w))) =
     calls (larkService w)"
  by (simp add: OnP2MessageReceiveV1_def ev_no_content_def track_recent_def parse_content_def
        UpdateRecentChat_def Let_def)

text \<open>
  What the code does of the routing: take an event with a kind of conversation and a
  content, and with a message kind unless the content fails to parse. If the kind is
  \<open>p2p\<close> and the event has a conversation id, the handler makes exactly one call on the
  client, a \<open>create\<close> of a text message addressed to that conversation id; if the kind is
  any other and the event has a message id, exactly one call, a \<open>reply\<close> to that message
  id. In both the body is two lines, the Chinese and the English prefix each followed by
  the same text.
\<close>

lemma OnP2MessageReceiveV1_routes_by_chat_type:
  assumes "em_ChatType ev = Some chatType" and "em_Content ev = Some c"
    and "unmarshal c = None \<or> em_MessageType ev \<noteq> None"
  shows "(chatType = ''p2p'' \<longrightarrow>
            (\<forall>chatId. em_ChatId ev = Some chatId \<longrightarrow>
               (\<exists>text. calls (larkService (snd (OnP2MessageReceiveV1 P enc now fault unmarshal ev w))) =
                  calls (larkService w) @
                  [CreateCall \<lparr>receive_id_type = ''chat_id'', create_msg_type = ''text'',
                               receive_id = chatId,
                               create_content = [zh_received @ text, en_received @ text]\<rparr>]))) \<and>
         (chatType \<noteq> ''p2p'' \<longrightarrow>
            (\<forall>messageId. em_MessageId ev = Some messageId \<longrightarrow>
               (\<exists>text. calls (larkService (snd (OnP2MessageReceiveV1 P enc now fault unmarshal ev w))) =
                  calls (larkService w) @
                  [ReplyCall \<lparr>reply_message_id = messageId, reply_msg_type = ''text'',
                              reply_content = [zh_received @ text, en_received @ text]\<rparr>])))"
proof (intro conjI impI allI)
  fix chatId assume k: "chatType = ''p2p''" and a: "em_ChatId ev = Some chatId"
  then have addr: "if chatType = ''p2p'' then em_ChatId ev = Some chatId
                   else em_MessageId ev = Some chatId" by simp
  show "\<exists>text. calls (larkService (snd (OnP2MessageReceiveV1 P enc now fault unmarshal ev w))) =
                  calls (larkService w) @
                  [CreateCall \<lparr>receive_id_type = ''chat_id'', create_msg_type = ''text'',
                               receive_id = chatId,
                               create_content = [zh_received @ text, en_received @ text]\<rparr>]"
    using OnP2MessageReceiveV1_calls[where unmarshal = unmarshal and P = P and enc = enc
            and now = now and fault = fault and w = w, OF assms addr] k
    unfolding reply_lines_def by auto
next
  fix messageId assume k: "chatType \<noteq> ''p2p''" and a: "em_MessageId ev = Some messageId"
  then have addr: "if chatType = ''p2p'' then em_ChatId ev = Some messageId
                   else em_MessageId ev = Some messageId" by simp
  show "\<exists>text. calls (larkService (snd (OnP2MessageReceiveV1 P enc now fault unmarshal ev w))) =
                  calls (larkService w) @
                  [ReplyCall \<lparr>reply_message_id = messageId, reply_msg_type = ''text'',
                              reply_content = [zh_received @ text, en_received @ text]\<rparr>]"
    using OnP2MessageReceiveV1_calls[where unmarshal = unmarshal and P = P and enc = enc
            and now = now and fault = fault and w = w, OF assms addr] k
    unfolding reply_lines_def by auto
qed

lemma OnP2MessageReceiveV1_routes_by_chat_type_example:
  "em_ChatType (example_event ''p2p'' ''text'' example_payload) = Some ''p2p'' \<and>
   em_Content (example_event ''p2p'' ''text'' example_payload) = Some example_payload \<and>
   em_MessageType (example_event ''p2p'' ''text'' example_payload) = Some ''text'' \<and>
   em_ChatId (example_event ''p2p'' ''text'' example_payload) = Some ''oc_1'' \<and>
   OnP2MessageReceiveV1 example_platform example_enc 1 None example_unmarshal
     (example_event ''p2p'' ''text'' example_payload) example_world =
     (Returned None,
      \<lparr>larkService =
         \<lparr>recentChat = Some \<lparr>recent_ChatID = ''oc_1'', recent_ChatType = ''p2p''\<rparr>,
          calls = [CreateCall \<lparr>receive_id_type = ''chat_id'', create_msg_type = ''text'',
                               receive_id = ''oc_1'',
                               create_content = [zh_received @ ''hi'', en_received @ ''hi'']\<rparr>]\<rparr>,
       dbStorage =
         \<lparr>messages = [(mk_row 1 ''oc_1'' ''om_1'' ''2024-01-01 00:00:01'')
                         \<lparr>col_content := example_payload\<rparr>],
          seq = 1\<rparr>\<rparr>) \<and>
   em_MessageId (example_event ''group'' ''text'' example_payload) = Some ''om_1'' \<and>
   calls (larkService (snd (OnP2MessageReceiveV1 example_platform example_enc 1 None example_unmarshal
     (example_event ''group'' ''text'' example_payload) example_world))) =
     [ReplyCall \<lparr>reply_message_id = ''om_1'', reply_msg_type = ''text'',
                 reply_content = [zh_received @ ''hi'', en_received @ ''hi'']\<rparr>]"
proof -
  have f: "em_ChatType (example_event k t c) = Some k"
    "em_Content (example_event k t c) = Some c" for k t c
    by (simp_all add: example_event_def)
  have g: "em_MessageType (example_event k t c) = Some t"
    "em_ChatId (example_event k t c) = Some ''oc_1''"
    "em_MessageId (example_event k t c) = Some ''om_1''" for k t c
    by (simp_all add: example_event_def)
  have h: "example_unmarshal c = None \<or> em_MessageType (example_event k t c) \<noteq> None" for k t c
    by (simp add: example_event_def)
  have p2p: "OnP2MessageReceiveV1 example_platform example_enc 1 None example_unmarshal
     (example_event ''p2p'' ''text'' example_payload) example_world =
     (Returned None,
      \<lparr>larkService =
         \<lparr>recentChat = Some \<lparr>recent_ChatID = ''oc_1'', recent_ChatType = ''p2p''\<rparr>,
          calls = [CreateCall \<lparr>receive_id_type = ''chat_id'', create_msg_type = ''text'',
                               receive_id = ''oc_1'',
                               create_content = [zh_received @ ''hi'', en_received @ ''hi'']\<rparr>]\<rparr>,
       dbStorage =
         \<lparr>messages = [(mk_row 1 ''oc_1'' ''om_1'' ''2024-01-01 00:00:01'')
                         \<lparr>col_content := example_payload\<rparr>],
          seq = 1\<rparr>\<rparr>)"
    by (simp add: OnP2MessageReceiveV1_def track_recent_def save_inbound_def SaveMessage_def
          insert_on_conflict_update_def parse_content_def send_reply_def reply_lines_def
          map_text_def UpdateRecentChat_def example_event_def example_world_def
          example_platform_def example_unmarshal_def example_payload_def example_enc_def NewLarkService_def
          NewStorage_def mk_row_def Let_def)
  have grp: "calls (larkService (snd (OnP2MessageReceiveV1 example_platform example_enc 1 None
     example_unmarshal (example_event ''group'' ''text'' example_payload) example_world))) =
     [ReplyCall \<lparr>reply_message_id = ''om_1'', reply_msg_type = ''text'',
                 reply_content = [zh_received @ ''hi'', en_received @ ''hi'']\<rparr>]"
    by (simp add: OnP2MessageReceiveV1_def track_recent_def parse_content_def send_reply_def
          reply_lines_def map_text_def UpdateRecentChat_def example_event_def example_world_def
          example_platform_def example_unmarshal_def example_payload_def NewLarkService_def Let_def)
  show ?thesis
    using OnP2MessageReceiveV1_routes_by_chat_type[where unmarshal = example_unmarshal
            and P = example_platform and enc = example_enc and now = 1 and fault = None
            and w = example_world,
            OF f[of "''p2p''" "''text''" example_payload] h[of example_payload "''p2p''" "''text''"]]
      f[of "''p2p''" "''text''" example_payload] g(1,2)[of "''p2p''" "''text''" example_payload]
      p2p g(3)[of "''group''" "''text''" example_payload] grp
    by - (intro conjI; assumption)
qed

text \<open>
  C8 does not hold of the code, by the slip of C1: an event whose content parses and whose
  message kind is absent (so not \<open>text\<close>) gets no reply with the fallback notice. The
  handler panics at the test \<open>*MessageType != "text"\<close>, and the client has been called no
  more than before.
\<close>

theorem OnP2MessageReceiveV1_absent_kind_no_reply:
  "em_MessageType ev_no_kind = None \<and>
   example_unmarshal example_payload = Some [''text'' \<mapsto> ''hi''] \<and>
   fst (OnP2MessageReceiveV1 P enc now fault example_unmarshal ev_no_kind w) = Panic \<and>
   calls (larkService (snd (OnP2MessageReceiveV1 P enc now fault example_unmarshal ev_no_kind w))) =
     calls (larkService w)"
  by (simp add: OnP2MessageReceiveV1_def ev_no_kind_def track_recent_def parse_content_def
        UpdateRecentChat_def example_unmarshal_def Let_def)

text \<open>
  What the code does of the fallback: take an event with a kind of conversation, a content,
  and the id its kind of conversation addresses. When the content does not parse, or the
  message kind is present and not \<open>text\<close>, the one call made carries the two prefixes
  followed by the fallback notice; when the content parses and the message kind is
  \<open>text\<close>, it carries them followed by the parsed map's \<open>text\<close> entry (the empty string
  when the map has none).
\<close>

lemma OnP2MessageReceiveV1_fallback_or_parsed_text:
  assumes "em_ChatType ev = Some chatType" and "em_Content ev = Some c"
    and "if chatType = ''p2p'' then em_ChatId ev = Some target else em_MessageId ev = Some target"
  shows "(unmarshal c = None \<or> (\<exists>k. em_MessageType ev = Some k \<and> k \<noteq> ''text'') \<longrightarrow>
            call_content (last (calls (larkService
              (snd (OnP2MessageReceiveV1 P enc now fault unmarshal ev w))))) =
            [zh_received @ fallback_notice, en_received @ fallback_notice]) \<and>
         (\<forall>m. unmarshal c = Some m \<and> em_MessageType ev = Some ''text'' \<longrightarrow>
            call_content (last (calls (larkService
              (snd (OnP2MessageReceiveV1 P enc now fault unmarshal ev w))))) =
            [zh_received @ map_text m, en_received @ map_text m])"
proof (intro conjI allI impI)
  assume a: "unmarshal c = None \<or> (\<exists>k. em_MessageType ev = Some k \<and> k \<noteq> ''text'')"
  then have "unmarshal c = None \<or> em_MessageType ev \<noteq> None" by auto
  from OnP2MessageReceiveV1_calls[where unmarshal = unmarshal and P = P and enc = enc and now = now
          and fault = fault and w = w, OF assms(1,2) this assms(3)] a
  show "call_content (last (calls (larkService
              (snd (OnP2MessageReceiveV1 P enc now fault unmarshal ev w))))) =
            [zh_received @ fallback_notice, en_received @ fallback_notice]"
    by (auto simp: call_content_def reply_lines_def)
next
  fix m assume a: "unmarshal c = Some m \<and> em_MessageType ev = Some ''text''"
  then have "unmarshal c = None \<or> em_MessageType ev \<noteq> None" by auto
  from OnP2MessageReceiveV1_calls[where unmarshal = unmarshal and P = P and enc = enc and now = now
          and fault = fault and w = w, OF assms(1,2) this assms(3)] a
  show "call_content (last (calls (larkService
              (snd (OnP2MessageReceiveV1 P enc now fault unmarshal ev w))))) =
            [zh_received @ map_text m, en_received @ map_text m]"
    by (auto simp: call_content_def reply_lines_def)
qed

lemma OnP2MessageReceiveV1_fallback_or_parsed_text_example:
  "example_unmarshal ''not json'' = None \<and>
   call_content (last (calls (larkService (snd (OnP2MessageReceiveV1 example_platform example_enc 1
     None example_unmarshal (example_event ''p2p'' ''text'' ''not json'') example_world))))) =
     [zh_received @ fallback_notice, en_received @ fallback_notice] \<and>
   call_content (last (calls (larkService (snd (OnP2MessageReceiveV1 example_platform example_enc 1
     None example_unmarshal (example_event ''group'' ''image'' example_payload) example_world))))) =
     [zh_received @ fallback_notice, en_received @ fallback_notice] \<and>
   example_unmarshal example_payload = Some [''text'' \<mapsto> ''hi''] \<and>
   call_content (last (calls (larkService (snd (OnP2MessageReceiveV1 example_platform example_enc 1
     None example_unmarshal (example_event ''group'' ''text'' example_payload) example_world))))) =
     [zh_received @ ''hi'', en_received @ ''hi'']"
proof -
  have f: "em_ChatType (example_event k t c) = Some k"
    "em_Content (example_event k t c) = Some c" for k t c
    by (simp_all add: example_event_def)
  have a1: "if ''p2p'' = ''p2p'' then em_ChatId (example_event ''p2p'' t c) = Some ''oc_1''
            else em_MessageId (example_event ''p2p'' t c) = Some ''oc_1''" for t c
    by (simp add: example_event_def)
  have a2: "if ''group'' = ''p2p'' then em_ChatId (example_event ''group'' t c) = Some ''om_1''
            else em_MessageId (example_event ''group'' t c) = Some ''om_1''" for t c
    by (simp add: example_event_def)
  have t: "em_MessageType (example_event k t c) = Some t" for k t c
    by (simp add: example_event_def)
  have u1: "example_unmarshal ''not json'' = None"
    and u2: "example_unmarshal example_payload = Some [''text'' \<mapsto> ''hi'']"
    by (simp_all add: example_unmarshal_def example_payload_def)
  have m: "map_text [''text'' \<mapsto> ''hi''] = ''hi''"
    by (simp add: map_text_def)
  have a: "call_content (last (calls (larkService (snd (OnP2MessageReceiveV1 example_platform
     example_enc 1 None example_unmarshal (example_event ''p2p'' ''text'' ''not json'')
     example_world))))) = [zh_received @ fallback_notice, en_received @ fallback_notice]"
    using OnP2MessageReceiveV1_fallback_or_parsed_text[where P = example_platform
            and unmarshal = example_unmarshal and enc = example_enc and now = 1 and fault = None
            and w = example_world,
            OF f[of "''p2p''" "''text''" "''not json''"] a1[of "''text''" "''not json''"]] u1
    by blast
  have b: "call_content (last (calls (larkService (snd (OnP2MessageReceiveV1 example_platform
     example_enc 1 None example_unmarshal (example_event ''group'' ''image'' example_payload)
     example_world))))) = [zh_received @ fallback_notice, en_received @ fallback_notice]"
    using OnP2MessageReceiveV1_fallback_or_parsed_text[where P = example_platform
            and unmarshal = example_unmarshal and enc = example_enc and now = 1 and fault = None
            and w = example_world,
            OF f[of "''group''" "''image''" example_payload] a2[of "''image''" example_payload]]
      t[of "''group''" "''image''" example_payload]
    by auto
  have c: "call_content (last (calls (larkService (snd (OnP2MessageReceiveV1 example_platform
     example_enc 1 None example_unmarshal (example_event ''group'' ''text'' example_payload)
     example_world))))) = [zh_received @ ''hi'', en_received @ ''hi'']"
    using OnP2MessageReceiveV1_fallback_or_parsed_text[where P = example_platform
            and unmarshal = example_unmarshal and enc = example_enc and now = 1 and fault = None
            and w = example_world,
            OF f[of "''group''" "''text''" example_payload] a2[of "''text''" example_payload]]
      t[of "''group''" "''text''" example_payload] u2 m
    by auto
  show ?thesis using u1 a b u2 c by - (intro conjI; assumption)
qed

end
